theory Spec2Isabelle
  imports Main
begin

section \<open>The document: elements, attributes, console, focus\<close>

text \<open>
  The accordion of \<^verbatim>\<open>shared/ts/components/accordion.ts\<close> works on DOM elements, which
  are objects with identity: the source compares them with \<^verbatim>\<open>!==\<close> and
  \<^verbatim>\<open>indexOf\<close>, and one element may be reached from several places. An element is
  therefore an address, and the document is a store from addresses to attribute maps.
  \<^verbatim>\<open>getAttribute\<close> returns \<^verbatim>\<open>null\<close> for a missing attribute (here \<open>None\<close>), while
  the \<^verbatim>\<open>id\<close> property reflects the \<^verbatim>\<open>id\<close> attribute and is the empty string when
  the attribute is missing.

  The two selector queries of the constructor are the browser's; the document carries
  their answers (\<open>querySelector\<close> for \<^verbatim>\<open>document.querySelector\<close>, \<open>querySelectorAll\<close>
  for \<^verbatim>\<open>element.querySelectorAll\<close>). Which elements can take the focus is the browser's
  rule too (a button with the \<^verbatim>\<open>disabled\<close> attribute cannot, nor can one that is not
  rendered); the document carries it as \<open>focusable\<close>, a function of the attributes.

  The widget is the three fields of the class. The listeners that the constructor
  registers are bound functions: each is recorded with the widget and the controller it
  was bound to.
\<close>

type_synonym addr = nat

datatype error = TypeError

record accordion =
  root :: addr
  controllers :: "addr list"
  containers :: "addr list"

datatype log_entry =
    ControllerMismatch addr
  | ContainerMismatch "addr option"
  | Uncaught error

datatype handler =
    ActivateRoot accordion
  | DeactivateRoot accordion
  | UpdateContainerByController accordion addr
  | NavigateControllerEvent addr accordion

record document =
  attributes :: "addr \<Rightarrow> string \<rightharpoonup> string"
  console :: "log_entry list"
  listeners :: "(addr \<times> string \<times> handler) list"
  activeElement :: "addr option"
  focusable :: "(addr \<Rightarrow> string \<rightharpoonup> string) \<Rightarrow> addr \<Rightarrow> bool"
  querySelector :: "string \<Rightarrow> addr option"
  querySelectorAll :: "addr \<Rightarrow> string \<Rightarrow> addr list"

definition getAttribute :: "document \<Rightarrow> addr \<Rightarrow> string \<Rightarrow> string option" where
  "getAttribute d e name = attributes d e name"

definition hasAttribute :: "document \<Rightarrow> addr \<Rightarrow> string \<Rightarrow> bool" where
  "hasAttribute d e name = (attributes d e name \<noteq> None)"

definition setAttribute :: "addr \<Rightarrow> string \<Rightarrow> string \<Rightarrow> document \<Rightarrow> document" where
  "setAttribute e name v d = d\<lparr>attributes := (attributes d)(e := (attributes d e)(name \<mapsto> v))\<rparr>"

definition removeAttribute :: "addr \<Rightarrow> string \<Rightarrow> document \<Rightarrow> document" where
  "removeAttribute e name d = d\<lparr>attributes := (attributes d)(e := (attributes d e)(name := None))\<rparr>"

definition element_id :: "document \<Rightarrow> addr \<Rightarrow> string" where
  "element_id d e = (case attributes d e ''id'' of None \<Rightarrow> [] | Some v \<Rightarrow> v)"

definition console_error :: "log_entry \<Rightarrow> document \<Rightarrow> document" where
  "console_error entry d = d\<lparr>console := console d @ [entry]\<rparr>"

definition addEventListener :: "addr \<Rightarrow> string \<Rightarrow> handler \<Rightarrow> document \<Rightarrow> document" where
  "addEventListener e type h d = d\<lparr>listeners := listeners d @ [(e, type, h)]\<rparr>"

text \<open>
  \<^verbatim>\<open>element.classList\<close>: the \<^verbatim>\<open>class\<close> attribute read as an ordered set of tokens
  separated by ASCII whitespace. \<^verbatim>\<open>add\<close> and \<^verbatim>\<open>remove\<close> write the attribute back as the
  tokens joined by single spaces; \<^verbatim>\<open>remove\<close> on an element without the attribute
  creates none.
\<close>

definition ascii_whitespace :: "char \<Rightarrow> bool" where
  "ascii_whitespace c = (c \<in> set [CHR 0x09, CHR 0x0A, CHR 0x0C, CHR 0x0D, CHR 0x20])"

fun split_tokens :: "string \<Rightarrow> string \<Rightarrow> string list" where
  "split_tokens cur [] = (if cur = [] then [] else [cur])"
| "split_tokens cur (c # cs) =
     (if ascii_whitespace c
      then (if cur = [] then split_tokens [] cs else cur # split_tokens [] cs)
      else split_tokens (cur @ [c]) cs)"

fun ordered_set :: "string list \<Rightarrow> string list" where
  "ordered_set [] = []"
| "ordered_set (t # ts) = t # filter (\<lambda>u. u \<noteq> t) (ordered_set ts)"

fun serialize_tokens :: "string list \<Rightarrow> string" where
  "serialize_tokens [] = []"
| "serialize_tokens [t] = t"
| "serialize_tokens (t # u # ts) = t @ '' '' @ serialize_tokens (u # ts)"

definition classList :: "document \<Rightarrow> addr \<Rightarrow> string list" where
  "classList d e =
     (case attributes d e ''class'' of None \<Rightarrow> [] | Some v \<Rightarrow> ordered_set (split_tokens [] v))"

definition classList_add :: "addr \<Rightarrow> string \<Rightarrow> document \<Rightarrow> document" where
  "classList_add e token d =
     (let tokens = classList d e
      in setAttribute e ''class''
           (serialize_tokens (if token \<in> set tokens then tokens else tokens @ [token])) d)"

definition classList_remove :: "addr \<Rightarrow> string \<Rightarrow> document \<Rightarrow> document" where
  "classList_remove e token d =
     (let tokens = filter (\<lambda>t. t \<noteq> token) (classList d e)
      in if \<not> hasAttribute d e ''class'' \<and> tokens = [] then d
         else setAttribute e ''class'' (serialize_tokens tokens) d)"

text \<open>\<^verbatim>\<open>Array.prototype.forEach\<close> with a callback that may throw.\<close>

fun forEach :: "('a \<Rightarrow> 's \<Rightarrow> error + 's) \<Rightarrow> 'a list \<Rightarrow> 's \<Rightarrow> error + 's" where
  "forEach f [] s = Inr s"
| "forEach f (x # xs) s = (case f x s of Inl e \<Rightarrow> Inl e | Inr s' \<Rightarrow> forEach f xs s')"

text \<open>\<^verbatim>\<open>Array.prototype.indexOf\<close> (\<open>-1\<close> when absent) and indexing (\<^verbatim>\<open>undefined\<close> out of range).\<close>

fun indexOf :: "'a list \<Rightarrow> 'a \<Rightarrow> int" where
  "indexOf [] x = -1"
| "indexOf (y # ys) x = (if y = x then 0 else (let i = indexOf ys x in if i < 0 then -1 else i + 1))"

definition at_index :: "'a list \<Rightarrow> int \<Rightarrow> 'a option" where
  "at_index xs i = (if 0 \<le> i \<and> i < int (length xs) then Some (xs ! nat i) else None)"

section \<open>Keyboard events\<close>

text \<open>
  \<^verbatim>\<open>toLowerCase\<close> and the case-insensitive regular expressions \<^verbatim>\<open>/home/i\<close>,
  \<^verbatim>\<open>/end/i\<close> on the key name. Only the letters A to Z are folded; no other character
  folds to a letter of the names compared here.
\<close>

record keyboard_event =
  key :: string
  ctrlKey :: bool
  defaultPrevented :: bool

definition lower_char :: "char \<Rightarrow> char" where
  "lower_char c =
     (case map_of (zip ''ABCDEFGHIJKLMNOPQRSTUVWXYZ'' ''abcdefghijklmnopqrstuvwxyz'') c of
        None \<Rightarrow> c
      | Some l \<Rightarrow> l)"

definition toLowerCase :: "string \<Rightarrow> string" where
  "toLowerCase s = map lower_char s"

fun starts_with :: "string \<Rightarrow> string \<Rightarrow> bool" where
  "starts_with [] s = True"
| "starts_with (p # ps) [] = False"
| "starts_with (p # ps) (c # cs) = (p = c \<and> starts_with ps cs)"

fun contains_string :: "string \<Rightarrow> string \<Rightarrow> bool" where
  "contains_string p [] = (p = [])"
| "contains_string p (c # cs) = (starts_with p (c # cs) \<or> contains_string p cs)"

definition match_ignore_case :: "string \<Rightarrow> string \<Rightarrow> bool" where
  "match_ignore_case s pattern = contains_string (toLowerCase pattern) (toLowerCase s)"

definition preventDefault :: "keyboard_event \<Rightarrow> keyboard_event" where
  "preventDefault ev = ev\<lparr>defaultPrevented := True\<rparr>"

section \<open>The accordion\<close>

definition allowManyContainers :: "accordion \<Rightarrow> document \<Rightarrow> bool" where
  "allowManyContainers this d = hasAttribute d (root this) ''data-accordion-many-containers''"

definition willToggle :: "accordion \<Rightarrow> document \<Rightarrow> bool" where
  "willToggle this d =
     (let manyContainers = allowManyContainers this d
      in if manyContainers then manyContainers
         else hasAttribute d (root this) ''data-accordion-toggle'')"

definition isControllerExpanded :: "document \<Rightarrow> addr \<Rightarrow> bool" where
  "isControllerExpanded d controller = (getAttribute d controller ''aria-expanded'' = Some ''true'')"

definition isControllerDisabled :: "document \<Rightarrow> addr \<Rightarrow> bool" where
  "isControllerDisabled d controller = (getAttribute d controller ''aria-disabled'' = Some ''true'')"

definition getActiveContainers :: "accordion \<Rightarrow> document \<Rightarrow> addr list" where
  "getActiveContainers this d = filter (\<lambda>container. \<not> hasAttribute d container ''hidden'') (containers this)"

definition getActiveControllers :: "accordion \<Rightarrow> document \<Rightarrow> addr list" where
  "getActiveControllers this d = filter (\<lambda>controller. isControllerExpanded d controller) (controllers this)"

definition getContainerByController :: "accordion \<Rightarrow> addr \<Rightarrow> document \<Rightarrow> addr option" where
  "getContainerByController this controller d =
     List.find (\<lambda>container. Some (element_id d container) = getAttribute d controller ''aria-controls'')
       (containers this)"

text \<open>
  \<^verbatim>\<open>isContainer\<close> receives what \<^verbatim>\<open>find\<close> returned, which may be \<^verbatim>\<open>undefined\<close>:
  then the callback of \<^verbatim>\<open>some\<close> throws on \<^verbatim>\<open>container.getAttribute\<close> as soon as it
  runs, that is, unless there is no controller at all.
\<close>

definition isContainer :: "accordion \<Rightarrow> addr option \<Rightarrow> document \<Rightarrow> error + (bool \<times> document)" where
  "isContainer this container d =
     (case container of
        None \<Rightarrow>
          (if controllers this = [] then Inr (False, console_error (ContainerMismatch None) d)
           else Inl TypeError)
      | Some k \<Rightarrow>
          (let result = list_ex (\<lambda>controller. Some (element_id d controller) = getAttribute d k ''aria-labelledby'')
                          (controllers this)
           in Inr (result, if \<not> result then console_error (ContainerMismatch (Some k)) d else d)))"

definition isController :: "accordion \<Rightarrow> addr \<Rightarrow> document \<Rightarrow> bool \<times> document" where
  "isController this controller d =
     (let result = list_ex (\<lambda>container. Some (element_id d container) = getAttribute d controller ''aria-controls'')
                     (containers this)
      in (result, if \<not> result then console_error (ControllerMismatch controller) d else d))"

definition activateContainerByController :: "addr \<Rightarrow> accordion \<Rightarrow> document \<Rightarrow> error + document" where
  "activateContainerByController controller context d =
     (case isController context controller d of
        (False, d1) \<Rightarrow> Inr d1
      | (True, d1) \<Rightarrow>
          (let container = getContainerByController context controller d1
           in case isContainer context container d1 of
                Inl e \<Rightarrow> Inl e
              | Inr (False, d2) \<Rightarrow> Inr d2
              | Inr (True, d2) \<Rightarrow>
                  (case container of
                     None \<Rightarrow> Inl TypeError
                   | Some k \<Rightarrow>
                       (let d3 = setAttribute controller ''aria-expanded'' ''true'' d2;
                            d4 = removeAttribute k ''hidden'' d3
                        in if \<not> willToggle context d4
                           then Inr (setAttribute controller ''aria-disabled'' ''true'' d4)
                           else Inr d4))))"

definition deactivateContainerByController :: "addr \<Rightarrow> accordion \<Rightarrow> document \<Rightarrow> error + document" where
  "deactivateContainerByController controller context d =
     (case isController context controller d of
        (False, d1) \<Rightarrow> Inr d1
      | (True, d1) \<Rightarrow>
          (let container = getContainerByController context controller d1
           in case isContainer context container d1 of
                Inl e \<Rightarrow> Inl e
              | Inr (False, d2) \<Rightarrow> Inr d2
              | Inr (True, d2) \<Rightarrow>
                  (case container of
                     None \<Rightarrow> Inl TypeError
                   | Some k \<Rightarrow>
                       (let d3 = setAttribute controller ''aria-expanded'' ''false'' d2;
                            d4 = setAttribute k ''hidden'' [] d3
                        in if \<not> willToggle context d4
                           then Inr (removeAttribute controller ''aria-disabled'' d4)
                           else Inr d4))))"

text \<open>
  The toggle operation. The list of active controllers is computed once, before the
  first of them is deactivated, as \<^verbatim>\<open>filter\<close> returns a fresh array.
\<close>

definition updateContainerByController :: "accordion \<Rightarrow> addr \<Rightarrow> document \<Rightarrow> error + document" where
  "updateContainerByController this controller d =
     (case (if \<not> allowManyContainers this d
            then forEach (\<lambda>controller. deactivateContainerByController controller this)
                   (filter (\<lambda>activeController. activeController \<noteq> controller)
                      (getActiveControllers this d)) d
            else Inr d) of
        Inl e \<Rightarrow> Inl e
      | Inr d1 \<Rightarrow>
          if \<not> isControllerExpanded d1 controller
          then activateContainerByController controller this d1
          else if willToggle this d1 \<and> isControllerExpanded d1 controller
          then deactivateContainerByController controller this d1
          else Inr d1)"

section \<open>Focus\<close>

definition activateRoot :: "accordion \<Rightarrow> document \<Rightarrow> document" where
  "activateRoot context d = classList_add (root context) ''accordion--is-focused'' d"

definition deactivateRoot :: "accordion \<Rightarrow> document \<Rightarrow> document" where
  "deactivateRoot context d = classList_remove (root context) ''accordion--is-focused'' d"

text \<open>
  A listener run for a focus or blur event. The two root handlers ignore the event. The
  bound toggle ignores it too. The key handler reads \<^verbatim>\<open>event.key.toLowerCase()\<close> first,
  which throws on an event without \<^verbatim>\<open>key\<close>. An exception in a listener does not reach
  the caller of \<^verbatim>\<open>focus()\<close>: the browser reports it and goes on with the next listener.
\<close>

definition handleEvent :: "handler \<Rightarrow> document \<Rightarrow> document" where
  "handleEvent h d =
     (case h of
        ActivateRoot context \<Rightarrow> activateRoot context d
      | DeactivateRoot context \<Rightarrow> deactivateRoot context d
      | UpdateContainerByController context controller \<Rightarrow>
          (case updateContainerByController context controller d of
             Inl e \<Rightarrow> console_error (Uncaught e) d
           | Inr d' \<Rightarrow> d')
      | NavigateControllerEvent controller context \<Rightarrow> console_error (Uncaught TypeError) d)"

text \<open>The listeners of the element for the event type, in the order they were added.\<close>

definition dispatchEvent :: "addr \<Rightarrow> string \<Rightarrow> document \<Rightarrow> document" where
  "dispatchEvent e type d =
     fold (\<lambda>l d'. handleEvent (snd (snd l)) d')
       (filter (\<lambda>l. fst l = e \<and> fst (snd l) = type) (listeners d)) d"

text \<open>
  \<^verbatim>\<open>element.focus()\<close> on an element: nothing happens when the element cannot take the
  focus or has it already; otherwise the element that had the focus gets a blur event,
  the focus moves, and the element gets a focus event.
\<close>

definition focus_element :: "addr \<Rightarrow> document \<Rightarrow> document" where
  "focus_element e d =
     (if \<not> focusable d (attributes d) e \<or> activeElement d = Some e then d
      else (let d1 = (case activeElement d of
                        None \<Rightarrow> d
                      | Some old \<Rightarrow> dispatchEvent old ''blur'' d);
                d2 = d1\<lparr>activeElement := Some e\<rparr>
            in dispatchEvent e ''focus'' d2))"

text \<open>\<^verbatim>\<open>target.focus()\<close>; on \<^verbatim>\<open>undefined\<close> the call is a \<^verbatim>\<open>TypeError\<close>.\<close>

definition focus :: "addr option \<Rightarrow> document \<Rightarrow> error + document" where
  "focus target d =
     (case target of
        None \<Rightarrow> Inl TypeError
      | Some e \<Rightarrow> Inr (focus_element e d))"

section \<open>Keyboard navigation\<close>

definition isKeyup :: "keyboard_event \<Rightarrow> bool" where
  "isKeyup ev =
     (let k = toLowerCase (key ev)
      in (ctrlKey ev \<and> k = ''pageup'') \<or> k = ''arrowup'' \<or> k = ''up'')"

definition isKeydown :: "keyboard_event \<Rightarrow> bool" where
  "isKeydown ev =
     (let k = toLowerCase (key ev)
      in (ctrlKey ev \<and> k = ''pagedown'') \<or> k = ''arrowdown'' \<or> k = ''down'')"

definition getFirstController :: "accordion \<Rightarrow> addr option" where
  "getFirstController context = at_index (controllers context) 0"

definition getLastController :: "accordion \<Rightarrow> addr option" where
  "getLastController context = at_index (controllers context) (int (length (controllers context)) - 1)"

definition getNextController :: "addr \<Rightarrow> accordion \<Rightarrow> addr option" where
  "getNextController controller context =
     (let index = indexOf (controllers context) controller + 1
      in if index \<le> int (length (controllers context)) - 1
         then at_index (controllers context) index
         else getFirstController context)"

definition getPrevController :: "addr \<Rightarrow> accordion \<Rightarrow> addr option" where
  "getPrevController controller context =
     (let index = indexOf (controllers context) controller - 1
      in if index \<ge> 0
         then at_index (controllers context) index
         else getLastController context)"

text \<open>
  One step of the key handler: \<^verbatim>\<open>if (test) { event.preventDefault(); target.focus(); }\<close>.
\<close>

definition navigate_step ::
  "bool \<Rightarrow> addr option \<Rightarrow> keyboard_event \<times> document \<Rightarrow> error + (keyboard_event \<times> document)" where
  "navigate_step test target s =
     (if test
      then (case focus target (snd s) of
              Inl e \<Rightarrow> Inl e
            | Inr d' \<Rightarrow> Inr (preventDefault (fst s), d'))
      else Inr s)"

definition navigateControllerEvent ::
  "addr \<Rightarrow> accordion \<Rightarrow> keyboard_event \<Rightarrow> document \<Rightarrow> error + (keyboard_event \<times> document)" where
  "navigateControllerEvent controller context ev d =
     (case navigate_step (isKeyup ev) (getPrevController controller context) (ev, d) of
        Inl e \<Rightarrow> Inl e
      | Inr s1 \<Rightarrow>
     (case navigate_step (isKeydown ev) (getNextController controller context) s1 of
        Inl e \<Rightarrow> Inl e
      | Inr s2 \<Rightarrow>
     (case navigate_step (match_ignore_case (key ev) ''home'') (getFirstController context) s2 of
        Inl e \<Rightarrow> Inl e
      | Inr s3 \<Rightarrow>
        navigate_step (match_ignore_case (key ev) ''end'') (getLastController context) s3)))"

section \<open>Construction and initialisation\<close>

definition manageRootEvents :: "addr \<Rightarrow> accordion \<Rightarrow> document \<Rightarrow> document" where
  "manageRootEvents controller context d =
     addEventListener controller ''blur'' (DeactivateRoot context)
       (addEventListener controller ''focus'' (ActivateRoot context) d)"

definition manageControllerEvents :: "addr \<Rightarrow> accordion \<Rightarrow> document \<Rightarrow> document" where
  "manageControllerEvents controller context d =
     addEventListener controller ''keydown'' (NavigateControllerEvent controller context)
       (addEventListener controller ''click'' (UpdateContainerByController context controller) d)"

definition processControllerEvents :: "accordion \<Rightarrow> document \<Rightarrow> document" where
  "processControllerEvents context d =
     fold (\<lambda>controller d'. manageControllerEvents controller context (manageRootEvents controller context d'))
       (controllers context) d"

definition defaultContainersByControllers :: "accordion \<Rightarrow> document \<Rightarrow> error + document" where
  "defaultContainersByControllers context d =
     forEach (\<lambda>controller. deactivateContainerByController controller context)
       (filter (\<lambda>controller. \<not> hasAttribute d controller ''aria-expanded''
                  \<or> getAttribute d controller ''aria-expanded'' = Some ''false'')
          (controllers context)) d"

definition initialize :: "accordion \<Rightarrow> document \<Rightarrow> error + document" where
  "initialize context d = defaultContainersByControllers context (processControllerEvents context d)"

text \<open>\<^verbatim>\<open>enumerateElements\<close> copies the node list into an array (\<^verbatim>\<open>[].slice.call\<close>).\<close>

definition enumerateElements :: "addr list \<Rightarrow> addr list" where
  "enumerateElements elements = elements"

text \<open>
  The constructor. \<^verbatim>\<open>root ?? document.querySelector(".accordion")\<close> may be \<^verbatim>\<open>null\<close>;
  the next statement calls \<^verbatim>\<open>this.root.querySelectorAll\<close> on it without a test, which
  throws, and no object is returned. An accordion that exists has a root.
\<close>

definition new_Accordion :: "addr option \<Rightarrow> document \<Rightarrow> error + (accordion \<times> document)" where
  "new_Accordion root_arg d =
     (case (case root_arg of Some r \<Rightarrow> Some r | None \<Rightarrow> querySelector d ''.accordion'') of
        None \<Rightarrow> Inl TypeError
      | Some r \<Rightarrow>
          (let this = \<lparr> root = r,
                        controllers = enumerateElements (querySelectorAll d r ''.accordion__button''),
                        containers = enumerateElements (querySelectorAll d r ''.accordion__section'') \<rparr>
           in case initialize this d of
                Inl e \<Rightarrow> Inl e
              | Inr d' \<Rightarrow> Inr (this, d')))"

section \<open>Pairing, and the states the properties are stated on\<close>

text \<open>
  A controller and a container are a valid pair when each names the other: the
  controller's \<^verbatim>\<open>aria-controls\<close> is the container's id and the container's
  \<^verbatim>\<open>aria-labelledby\<close> is the controller's id.
\<close>

definition paired :: "accordion \<Rightarrow> document \<Rightarrow> addr \<Rightarrow> addr \<Rightarrow> bool" where
  "paired this d c k =
     (c \<in> set (controllers this) \<and> k \<in> set (containers this)
      \<and> getAttribute d c ''aria-controls'' = Some (element_id d k)
      \<and> getAttribute d k ''aria-labelledby'' = Some (element_id d c))"

definition unique_container_ids :: "accordion \<Rightarrow> document \<Rightarrow> bool" where
  "unique_container_ids this d = distinct (map (element_id d) (containers this))"

definition unique_controller_ids :: "accordion \<Rightarrow> document \<Rightarrow> bool" where
  "unique_controller_ids this d = distinct (map (element_id d) (controllers this))"

text \<open>
  No controller of the widget other than \<open>c\<close> names the container \<open>k\<close>.
\<close>

definition sole_controller :: "accordion \<Rightarrow> document \<Rightarrow> addr \<Rightarrow> addr \<Rightarrow> bool" where
  "sole_controller this d c k =
     (\<forall>y\<in>set (controllers this).
        getAttribute d y ''aria-controls'' = Some (element_id d k) \<longrightarrow> y = c)"

text \<open>
  What the two checks of a transition accept: the container that \<^verbatim>\<open>find\<close> returns for
  the controller, when some controller's id is that container's \<^verbatim>\<open>aria-labelledby\<close>.
\<close>

definition validated_container :: "accordion \<Rightarrow> addr \<Rightarrow> document \<Rightarrow> addr option" where
  "validated_container this c d =
     (case getContainerByController this c d of
        None \<Rightarrow> None
      | Some k \<Rightarrow>
          if list_ex (\<lambda>controller. Some (element_id d controller) = getAttribute d k ''aria-labelledby'')
               (controllers this)
          then Some k else None)"

text \<open>
  The effect of the transitions, written as functions of the state before: the
  attributes after deactivating or activating one controller, the console output of its
  two checks, and the attributes after deactivating the controllers of a list one after
  the other. The lemmas \<open>deactivate_eq\<close>, \<open>activate_eq\<close> and \<open>collapse_loop\<close> below
  prove that the source's functions compute exactly these.
\<close>

definition deactivated :: "accordion \<Rightarrow> addr \<Rightarrow> document \<Rightarrow> addr \<Rightarrow> string \<rightharpoonup> string" where
  "deactivated this c d =
     (\<lambda>e n. case validated_container this c d of
              None \<Rightarrow> attributes d e n
            | Some k \<Rightarrow>
                if e = c \<and> n = ''aria-expanded'' then Some ''false''
                else if e = k \<and> n = ''hidden'' then Some []
                else if e = c \<and> n = ''aria-disabled'' \<and> \<not> willToggle this d then None
                else attributes d e n)"

definition activated :: "accordion \<Rightarrow> addr \<Rightarrow> document \<Rightarrow> addr \<Rightarrow> string \<rightharpoonup> string" where
  "activated this c d =
     (\<lambda>e n. case validated_container this c d of
              None \<Rightarrow> attributes d e n
            | Some k \<Rightarrow>
                if e = c \<and> n = ''aria-expanded'' then Some ''true''
                else if e = k \<and> n = ''hidden'' then None
                else if e = c \<and> n = ''aria-disabled'' \<and> \<not> willToggle this d then Some ''true''
                else attributes d e n)"

definition validation_report :: "accordion \<Rightarrow> addr \<Rightarrow> document \<Rightarrow> log_entry list" where
  "validation_report this c d =
     (if \<not> list_ex (\<lambda>container. Some (element_id d container) = getAttribute d c ''aria-controls'')
              (containers this)
      then [ControllerMismatch c]
      else if validated_container this c d = None
      then [ContainerMismatch (getContainerByController this c d)]
      else [])"

definition collapsed :: "accordion \<Rightarrow> addr list \<Rightarrow> document \<Rightarrow> addr \<Rightarrow> string \<rightharpoonup> string" where
  "collapsed this ys d =
     (\<lambda>e n. if n = ''aria-expanded'' \<and> e \<in> set ys \<and> validated_container this e d \<noteq> None
            then Some ''false''
            else if n = ''hidden'' \<and> list_ex (\<lambda>y. validated_container this y d = Some e) ys
            then Some []
            else if n = ''aria-disabled'' \<and> e \<in> set ys \<and> validated_container this e d \<noteq> None
                    \<and> \<not> willToggle this d
            then None
            else attributes d e n)"

text \<open>The controllers that a toggle of \<open>c\<close> deactivates before it looks at \<open>c\<close> itself.\<close>

definition others :: "accordion \<Rightarrow> addr \<Rightarrow> document \<Rightarrow> addr list" where
  "others this c d =
     (if allowManyContainers this d then []
      else filter (\<lambda>activeController. activeController \<noteq> c) (getActiveControllers this d))"

definition others_collapsed :: "accordion \<Rightarrow> addr \<Rightarrow> document \<Rightarrow> document" where
  "others_collapsed this c d =
     d\<lparr>attributes := collapsed this (others this c d) d,
       console := console d @ concat (map (\<lambda>y. validation_report this y d) (others this c d))\<rparr>"

text \<open>The attributes after a toggle of \<open>c\<close> (lemma \<open>update_attributes\<close>).\<close>

definition toggled :: "accordion \<Rightarrow> addr \<Rightarrow> document \<Rightarrow> addr \<Rightarrow> string \<rightharpoonup> string" where
  "toggled this c d =
     (\<lambda>e n. case validated_container this c d of
              None \<Rightarrow> collapsed this (others this c d) d e n
            | Some k \<Rightarrow>
                if \<not> isControllerExpanded d c
                then (if e = c \<and> n = ''aria-expanded'' then Some ''true''
                      else if e = k \<and> n = ''hidden'' then None
                      else if e = c \<and> n = ''aria-disabled'' \<and> \<not> willToggle this d then Some ''true''
                      else collapsed this (others this c d) d e n)
                else if willToggle this d
                then (if e = c \<and> n = ''aria-expanded'' then Some ''false''
                      else if e = k \<and> n = ''hidden'' then Some []
                      else collapsed this (others this c d) d e n)
                else collapsed this (others this c d) d e n)"

text \<open>Two documents agree on every attribute but the three that the transitions write.\<close>

definition same_markup :: "document \<Rightarrow> document \<Rightarrow> bool" where
  "same_markup d d' =
     (\<forall>e n. n \<noteq> ''aria-expanded'' \<and> n \<noteq> ''aria-disabled'' \<and> n \<noteq> ''hidden''
        \<longrightarrow> attributes d' e n = attributes d e n)"

text \<open>Two documents agree on everything but attributes and console output.\<close>

definition same_environment :: "document \<Rightarrow> document \<Rightarrow> bool" where
  "same_environment d d' =
     (listeners d' = listeners d \<and> activeElement d' = activeElement d
      \<and> focusable d' = focusable d
      \<and> querySelector d' = querySelector d \<and> querySelectorAll d' = querySelectorAll d)"

text \<open>A sequence of clicks: the toggle operation on one controller after the other.\<close>

fun toggles :: "accordion \<Rightarrow> addr list \<Rightarrow> document \<Rightarrow> error + document" where
  "toggles this [] d = Inr d"
| "toggles this (c # cs) d =
     (case updateContainerByController this c d of
        Inl e \<Rightarrow> Inl e
      | Inr d' \<Rightarrow> toggles this cs d')"

section \<open>Example pages\<close>

text \<open>
  A page is given by its elements' attributes, the element that
  \<^verbatim>\<open>document.querySelector(".accordion")\<close> finds, and the buttons and sections under it.
  Every element is rendered: an element can take the focus unless it has the
  \<^verbatim>\<open>disabled\<close> attribute.
\<close>

definition element_attributes :: "(addr \<times> (string \<times> string) list) list \<Rightarrow> addr \<Rightarrow> string \<rightharpoonup> string" where
  "element_attributes els e = (case map_of els e of None \<Rightarrow> Map.empty | Some as \<Rightarrow> map_of as)"

definition page ::
  "(addr \<times> (string \<times> string) list) list \<Rightarrow> addr option \<Rightarrow> addr list \<Rightarrow> addr list \<Rightarrow> document" where
  "page els r buttons sections =
     \<lparr> attributes = element_attributes els,
       console = [],
       listeners = [],
       activeElement = None,
       focusable = (\<lambda>attrs e. attrs e ''disabled'' = None),
       querySelector = (\<lambda>s. if s = ''.accordion'' then r else None),
       querySelectorAll = (\<lambda>e s. if Some e = r \<and> s = ''.accordion__button'' then buttons
                                 else if Some e = r \<and> s = ''.accordion__section'' then sections
                                 else []) \<rparr>"

text \<open>
  The scenario of two pairs: buttons 1 and 2 (ids C1, C2) and sections 3 and 4 (ids K1, K2)
  under the root 0, each pair naming each other; the arguments add attributes to the root
  and to the four elements, and say which buttons are under the root. Element 5 is a third button whose \<^verbatim>\<open>aria-controls\<close> names
  no section and which is marked expanded; element 6 is a button that names no section and
  has no \<^verbatim>\<open>aria-expanded\<close>; element 9 is outside the accordion and names section K1.
\<close>

definition two_pairs ::
  "(string \<times> string) list \<Rightarrow> (string \<times> string) list \<Rightarrow> (string \<times> string) list
     \<Rightarrow> (string \<times> string) list \<Rightarrow> (string \<times> string) list \<Rightarrow> addr list \<Rightarrow> document" where
  "two_pairs r c1 c2 k1 k2 buttons =
     page [(0, r),
           (1, [(''id'', ''C1''), (''aria-controls'', ''K1'')] @ c1),
           (2, [(''id'', ''C2''), (''aria-controls'', ''K2'')] @ c2),
           (3, [(''id'', ''K1''), (''aria-labelledby'', ''C1'')] @ k1),
           (4, [(''id'', ''K2''), (''aria-labelledby'', ''C2'')] @ k2),
           (5, [(''id'', ''C3''), (''aria-controls'', ''K9''), (''aria-expanded'', ''true'')]),
           (6, [(''id'', ''C4''), (''aria-controls'', ''K8'')]),
           (9, [(''id'', ''X''), (''aria-controls'', ''K1'')])]
          (Some 0) buttons [3, 4]"

definition two_pairs_widget :: "addr list \<Rightarrow> accordion" where
  "two_pairs_widget buttons = \<lparr> root = 0, controllers = buttons, containers = [3, 4] \<rparr>"

text \<open>
  Toggling allowed, the first pair open and its button still marked disabled (as it is
  after the button was activated while toggling was not allowed and the page then set
  \<^verbatim>\<open>data-accordion-toggle\<close> on the root, as \<^verbatim>\<open>app.ts\<close> does).
\<close>

definition open_and_disabled :: document where
  "open_and_disabled =
     two_pairs [(''data-accordion-toggle'', [])]
       [(''aria-expanded'', ''true''), (''aria-disabled'', ''true'')] []
       [] [(''hidden'', [])] [1, 2]"

text \<open>Many containers allowed, both pairs collapsed, the first button still marked disabled.\<close>

definition many_collapsed_and_disabled :: document where
  "many_collapsed_and_disabled =
     two_pairs [(''data-accordion-many-containers'', [])]
       [(''aria-expanded'', ''false''), (''aria-disabled'', ''true'')] [(''aria-expanded'', ''false'')]
       [(''hidden'', [])] [(''hidden'', [])] [1, 2]"

text \<open>Toggling allowed, the first pair collapsed and the second open.\<close>

definition toggle_first_collapsed :: document where
  "toggle_first_collapsed =
     two_pairs [(''data-accordion-toggle'', [])]
       [(''aria-expanded'', ''false'')] [(''aria-expanded'', ''true'')]
       [(''hidden'', [])] [] [1, 2]"

text \<open>
  No flag on the root; the first pair open, the second collapsed. The argument says which
  buttons the accordion has: 1 and 2, and possibly 5 or 6, which name no section.
\<close>

definition first_open :: "addr list \<Rightarrow> document" where
  "first_open buttons =
     two_pairs [] [(''aria-expanded'', ''true'')] [(''aria-expanded'', ''false'')]
       [] [(''hidden'', [])] buttons"

text \<open>No flag on the root; both pairs collapsed.\<close>

definition both_collapsed :: document where
  "both_collapsed =
     two_pairs [] [(''aria-expanded'', ''false'')] [(''aria-expanded'', ''false'')]
       [(''hidden'', [])] [(''hidden'', [])] [1, 2]"

text \<open>
  Markup before construction: the first button says \<^verbatim>\<open>aria-expanded="true"\<close> while its
  section is hidden; the second pair has no state yet.
\<close>

definition markup_open_but_hidden :: document where
  "markup_open_but_hidden =
     two_pairs [] [(''aria-expanded'', ''true'')] [] [(''hidden'', [])] [] [1, 2]"

text \<open>
  Markup before construction: the first button says \<^verbatim>\<open>aria-expanded="undefined"\<close> (the
  value ARIA gives an element that is not expandable) and its section is visible; the other
  button, 6, names no section and has no \<^verbatim>\<open>aria-expanded\<close>.
\<close>

definition markup_undefined_and_broken :: document where
  "markup_undefined_and_broken =
     two_pairs [] [(''aria-expanded'', ''undefined'')] [] [] [] [1, 6]"

text \<open>Markup before construction: no state on the first pair, the second says "false".\<close>

definition markup_plain :: document where
  "markup_plain = two_pairs [] [] [(''aria-expanded'', ''false'')] [] [] [1, 2]"

text \<open>A widget with three buttons, and a page on which nothing matches \<^verbatim>\<open>.accordion\<close>.\<close>

definition three_buttons :: accordion where
  "three_buttons = \<lparr> root = 0, controllers = [1, 2, 3], containers = [4, 5, 6] \<rparr>"

definition page_without_accordion :: document where
  "page_without_accordion = page [(7, [(''id'', ''main'')])] None [] []"

section \<open>Basic facts: arrays and key names\<close>

lemma indexOf_nth:
  "distinct xs \<Longrightarrow> i < length xs \<Longrightarrow> indexOf xs (xs ! i) = int i"
proof (induction xs arbitrary: i)
  case Nil
  then show ?case by simp
next
  case (Cons y ys)
  show ?case
  proof (cases i)
    case 0
    then show ?thesis by simp
  next
    case (Suc j)
    with Cons.prems have j: "j < length ys" and d: "distinct ys" and ny: "y \<notin> set ys"
      by auto
    from j ny have "ys ! j \<noteq> y" by (metis nth_mem)
    with Cons.IH[OF d j] Suc show ?thesis by (simp add: Let_def)
  qed
qed

lemma key_tests:
  "match_ignore_case ''Home'' ''home''" "\<not> match_ignore_case ''Home'' ''end''"
  "match_ignore_case ''End'' ''end''" "\<not> match_ignore_case ''End'' ''home''"
  "toLowerCase ''Home'' = ''home''" "toLowerCase ''End'' = ''end''"
  "toLowerCase ''ArrowUp'' = ''arrowup''" "toLowerCase ''ArrowDown'' = ''arrowdown''"
  "\<not> match_ignore_case ''ArrowUp'' ''home''" "\<not> match_ignore_case ''ArrowUp'' ''end''"
  "\<not> match_ignore_case ''ArrowDown'' ''home''" "\<not> match_ignore_case ''ArrowDown'' ''end''"
  by (simp_all add: match_ignore_case_def toLowerCase_def lower_char_def)

lemma first_last:
  assumes "controllers context \<noteq> []"
  shows "getFirstController context = Some (controllers context ! 0)"
    and "getLastController context = Some (controllers context ! (length (controllers context) - 1))"
  using assms
  by (auto simp: getFirstController_def getLastController_def at_index_def nat_diff_distrib')

lemma prev_first:
  assumes "controllers context \<noteq> []"
  shows "getPrevController (controllers context ! 0) context
           = Some (controllers context ! (length (controllers context) - 1))"
proof -
  from assms obtain y ys where "controllers context = y # ys"
    by (cases "controllers context") auto
  then have "indexOf (controllers context) (controllers context ! 0) = 0" by simp
  then show ?thesis using first_last(2)[OF assms] by (simp add: getPrevController_def)
qed

lemma next_last:
  assumes "controllers context \<noteq> []" "distinct (controllers context)"
  shows "getNextController (controllers context ! (length (controllers context) - 1)) context
           = Some (controllers context ! 0)"
proof -
  from assms have "indexOf (controllers context) (controllers context ! (length (controllers context) - 1))
                     = int (length (controllers context) - 1)"
    by (intro indexOf_nth) auto
  moreover have "int (length (controllers context) - 1) + 1 = int (length (controllers context))"
    using assms(1) by (cases "controllers context") auto
  ultimately show ?thesis using first_last(1)[OF assms(1)]
    by (simp add: getNextController_def Let_def del: One_nat_def)
qed

section \<open>The transitions as functions of the state before\<close>

subsection \<open>Attributes after a write\<close>

lemma attributes_setAttribute:
  "attributes (setAttribute e n v d) e' n' = (if e' = e \<and> n' = n then Some v else attributes d e' n')"
  by (simp add: setAttribute_def)

lemma attributes_removeAttribute:
  "attributes (removeAttribute e n d) e' n' = (if e' = e \<and> n' = n then None else attributes d e' n')"
  by (simp add: removeAttribute_def)

lemma same_markup_refl: "same_markup d d"
  by (simp add: same_markup_def)

lemma same_markup_trans: "same_markup d d1 \<Longrightarrow> same_markup d1 d2 \<Longrightarrow> same_markup d d2"
  by (simp add: same_markup_def)

lemma same_markup_reads:
  assumes "same_markup d d'"
  shows "element_id d' e = element_id d e"
    and "getAttribute d' e ''aria-controls'' = getAttribute d e ''aria-controls''"
    and "getAttribute d' e ''aria-labelledby'' = getAttribute d e ''aria-labelledby''"
    and "hasAttribute d' e ''data-accordion-many-containers'' = hasAttribute d e ''data-accordion-many-containers''"
    and "hasAttribute d' e ''data-accordion-toggle'' = hasAttribute d e ''data-accordion-toggle''"
  using assms by (simp_all add: same_markup_def element_id_def getAttribute_def hasAttribute_def)

lemma same_markup_flags:
  assumes "same_markup d d'"
  shows "allowManyContainers this d' = allowManyContainers this d"
    and "willToggle this d' = willToggle this d"
  by (simp_all add: allowManyContainers_def willToggle_def same_markup_reads[OF assms])

lemma same_markup_find:
  assumes "same_markup d d'"
  shows "getContainerByController this c d' = getContainerByController this c d"
  by (simp add: getContainerByController_def same_markup_reads[OF assms])

lemma same_markup_validated:
  assumes "same_markup d d'"
  shows "validated_container this c d' = validated_container this c d"
  by (simp add: validated_container_def same_markup_reads[OF assms] same_markup_find[OF assms]
      cong: option.case_cong)

lemma same_markup_paired:
  assumes "same_markup d d'"
  shows "paired this d' c k = paired this d c k"
  by (simp add: paired_def same_markup_reads[OF assms])

lemma same_markup_unique:
  assumes "same_markup d d'"
  shows "unique_container_ids this d' = unique_container_ids this d"
    and "unique_controller_ids this d' = unique_controller_ids this d"
  by (simp_all add: unique_container_ids_def unique_controller_ids_def same_markup_reads[OF assms]
      cong: map_cong)

subsection \<open>One transition\<close>

text \<open>
  Neither transition throws: the container that \<^verbatim>\<open>find\<close> returns is there whenever
  \<^verbatim>\<open>isController\<close> has accepted the controller, since both use the same test.
\<close>

lemma find_None_list_ex: "(List.find P xs = None) = (\<not> list_ex P xs)"
  by (auto simp: find_None_iff list_ex_iff)

lemma find_Some_list_ex: "List.find P xs = Some k \<Longrightarrow> list_ex P xs"
  using find_None_list_ex[of P xs] by simp

lemma validated_container_Some:
  "validated_container this c d = Some k \<Longrightarrow>
     k \<in> set (containers this) \<and> getAttribute d c ''aria-controls'' = Some (element_id d k)
     \<and> getContainerByController this c d = Some k"
  by (auto simp: validated_container_def getContainerByController_def find_Some_iff
      split: option.splits if_splits)

lemma same_markup_report:
  assumes "same_markup d d'"
  shows "validation_report this c d' = validation_report this c d"
  by (simp add: validation_report_def same_markup_reads[OF assms] same_markup_find[OF assms]
      same_markup_validated[OF assms])

lemma deactivate_eq:
  "deactivateContainerByController c this d =
     Inr (d\<lparr>attributes := deactivated this c d,
            console := console d @ validation_report this c d\<rparr>)"
proof (cases "validated_container this c d")
  case None
  have "deactivated this c d = attributes d"
    by (simp add: deactivated_def None fun_eq_iff)
  moreover have "deactivateContainerByController c this d
                   = Inr (d\<lparr>console := console d @ validation_report this c d\<rparr>)"
    using None
    by (auto simp: deactivateContainerByController_def isController_def isContainer_def
        validated_container_def getContainerByController_def Let_def find_None_list_ex
        validation_report_def console_error_def
        split: option.splits if_splits)
  ultimately show ?thesis by simp
next
  case (Some k)
  let ?d4 = "setAttribute k ''hidden'' [] (setAttribute c ''aria-expanded'' ''false'' d)"
  have sm: "same_markup d ?d4"
    by (simp add: same_markup_def attributes_setAttribute)
  have run: "deactivateContainerByController c this d =
           Inr (if \<not> willToggle this ?d4 then removeAttribute c ''aria-disabled'' ?d4 else ?d4)"
    using Some
    by (auto simp: deactivateContainerByController_def isController_def isContainer_def
        validated_container_def getContainerByController_def Let_def list_ex_iff
        split: option.splits if_splits dest: find_Some_iff[THEN iffD1])
  have rep: "validation_report this c d = []"
    using Some
    by (auto simp: validation_report_def validated_container_def getContainerByController_def
        split: option.splits if_splits dest: find_Some_list_ex)
  have at: "attributes (if \<not> willToggle this d then removeAttribute c ''aria-disabled'' ?d4 else ?d4)
              = deactivated this c d"
    by (auto simp: fun_eq_iff deactivated_def Some attributes_setAttribute attributes_removeAttribute)
  show ?thesis
    unfolding run same_markup_flags(2)[OF sm] rep at[symmetric]
    by (simp add: setAttribute_def removeAttribute_def)
qed

lemma activate_eq:
  "activateContainerByController c this d =
     Inr (d\<lparr>attributes := activated this c d,
            console := console d @ validation_report this c d\<rparr>)"
proof (cases "validated_container this c d")
  case None
  have "activated this c d = attributes d"
    by (simp add: activated_def None fun_eq_iff)
  moreover have "activateContainerByController c this d
                   = Inr (d\<lparr>console := console d @ validation_report this c d\<rparr>)"
    using None
    by (auto simp: activateContainerByController_def isController_def isContainer_def
        validated_container_def getContainerByController_def Let_def find_None_list_ex
        validation_report_def console_error_def
        split: option.splits if_splits)
  ultimately show ?thesis by simp
next
  case (Some k)
  let ?d4 = "removeAttribute k ''hidden'' (setAttribute c ''aria-expanded'' ''true'' d)"
  have sm: "same_markup d ?d4"
    by (simp add: same_markup_def attributes_setAttribute attributes_removeAttribute)
  have run: "activateContainerByController c this d =
           Inr (if \<not> willToggle this ?d4 then setAttribute c ''aria-disabled'' ''true'' ?d4 else ?d4)"
    using Some
    by (auto simp: activateContainerByController_def isController_def isContainer_def
        validated_container_def getContainerByController_def Let_def list_ex_iff
        split: option.splits if_splits dest: find_Some_iff[THEN iffD1])
  have rep: "validation_report this c d = []"
    using Some
    by (auto simp: validation_report_def validated_container_def getContainerByController_def
        split: option.splits if_splits dest: find_Some_list_ex)
  have at: "attributes (if \<not> willToggle this d then setAttribute c ''aria-disabled'' ''true'' ?d4 else ?d4)
              = activated this c d"
    by (auto simp: fun_eq_iff activated_def Some attributes_setAttribute attributes_removeAttribute)
  show ?thesis
    unfolding run same_markup_flags(2)[OF sm] rep at[symmetric]
    by (simp add: setAttribute_def removeAttribute_def)
qed

lemma same_markup_deactivated:
  "same_markup d (d\<lparr>attributes := deactivated this c d, console := l\<rparr>)"
  by (simp add: same_markup_def deactivated_def split: option.splits)

lemma same_markup_activated:
  "same_markup d (d\<lparr>attributes := activated this c d, console := l\<rparr>)"
  by (simp add: same_markup_def activated_def split: option.splits)

lemma same_markup_collapsed:
  "same_markup d (d\<lparr>attributes := collapsed this ys d, console := l\<rparr>)"
  by (simp add: same_markup_def collapsed_def)

lemma collapsed_Nil: "collapsed this [] d = attributes d"
  by (simp add: collapsed_def fun_eq_iff)

lemma collapsed_same_markup:
  assumes "same_markup d d'"
  shows "collapsed this ys d' e n =
     (if n = ''aria-expanded'' \<and> e \<in> set ys \<and> validated_container this e d \<noteq> None
            then Some ''false''
            else if n = ''hidden'' \<and> list_ex (\<lambda>y. validated_container this y d = Some e) ys
            then Some []
            else if n = ''aria-disabled'' \<and> e \<in> set ys \<and> validated_container this e d \<noteq> None
                    \<and> \<not> willToggle this d
            then None
            else attributes d' e n)"
  unfolding collapsed_def same_markup_validated[OF assms] same_markup_flags(2)[OF assms]
  by (rule refl)

lemma collapsed_Cons:
  "collapsed this ys (d\<lparr>attributes := deactivated this y d, console := l\<rparr>) = collapsed this (y # ys) d"
proof (intro ext)
  fix e n
  let ?d1 = "d\<lparr>attributes := deactivated this y d, console := l\<rparr>"
  have sm: "same_markup d ?d1" by (rule same_markup_deactivated)
  have a: "attributes ?d1 e n = deactivated this y d e n" by simp
  show "collapsed this ys ?d1 e n = collapsed this (y # ys) d e n"
    unfolding collapsed_same_markup[OF sm] a
    by (cases "validated_container this y d"; cases "e = y")
       (auto simp add: collapsed_def deactivated_def simp del: not_None_eq)
qed

lemma collapse_loop:
  "forEach (\<lambda>y. deactivateContainerByController y this) ys d =
     Inr (d\<lparr>attributes := collapsed this ys d,
            console := console d @ concat (map (\<lambda>y. validation_report this y d) ys)\<rparr>)"
proof (induction ys arbitrary: d)
  case Nil
  show ?case by (simp add: collapsed_Nil)
next
  case (Cons y ys)
  let ?d1 = "d\<lparr>attributes := deactivated this y d, console := console d @ validation_report this y d\<rparr>"
  have sm: "same_markup d ?d1" by (rule same_markup_deactivated)
  have "forEach (\<lambda>y. deactivateContainerByController y this) (y # ys) d
          = forEach (\<lambda>y. deactivateContainerByController y this) ys ?d1"
    by (simp add: deactivate_eq)
  also have "\<dots> = Inr (?d1\<lparr>attributes := collapsed this ys ?d1,
            console := console ?d1 @ concat (map (\<lambda>y. validation_report this y ?d1) ys)\<rparr>)"
    by (rule Cons.IH)
  also have "\<dots> = Inr (d\<lparr>attributes := collapsed this (y # ys) d,
            console := console d @ concat (map (\<lambda>y. validation_report this y d) (y # ys))\<rparr>)"
    unfolding collapsed_Cons same_markup_report[OF sm] by simp
  finally show ?case .
qed

lemma others_not_self: "c \<notin> set (others this c d)"
  by (simp add: others_def)

lemma collapse_others:
  "(if \<not> allowManyContainers this d
            then forEach (\<lambda>controller. deactivateContainerByController controller this)
                   (filter (\<lambda>activeController. activeController \<noteq> c)
                      (getActiveControllers this d)) d
            else Inr d) = Inr (others_collapsed this c d)"
  by (simp add: collapse_loop others_collapsed_def others_def collapsed_Nil)

lemma same_markup_others_collapsed: "same_markup d (others_collapsed this c d)"
  unfolding others_collapsed_def by (rule same_markup_collapsed)

lemma expanded_others_collapsed:
  "isControllerExpanded (others_collapsed this c d) c = isControllerExpanded d c"
  using others_not_self[of c this d]
  by (simp add: isControllerExpanded_def getAttribute_def others_collapsed_def collapsed_def)

lemma update_eq:
  "updateContainerByController this c d =
     (let d1 = others_collapsed this c d
      in if \<not> isControllerExpanded d c
         then Inr (d1\<lparr>attributes := activated this c d1,
                      console := console d1 @ validation_report this c d\<rparr>)
         else if willToggle this d
         then Inr (d1\<lparr>attributes := deactivated this c d1,
                      console := console d1 @ validation_report this c d\<rparr>)
         else Inr d1)"
  unfolding updateContainerByController_def collapse_others
  by (simp add: expanded_others_collapsed same_markup_flags[OF same_markup_others_collapsed]
      same_markup_report[OF same_markup_others_collapsed] activate_eq deactivate_eq Let_def)

subsection \<open>A toggle\<close>

lemma activated_same_markup:
  assumes "same_markup d d'"
  shows "activated this c d' e n =
     (case validated_container this c d of
              None \<Rightarrow> attributes d' e n
            | Some k \<Rightarrow>
                if e = c \<and> n = ''aria-expanded'' then Some ''true''
                else if e = k \<and> n = ''hidden'' then None
                else if e = c \<and> n = ''aria-disabled'' \<and> \<not> willToggle this d then Some ''true''
                else attributes d' e n)"
  unfolding activated_def same_markup_validated[OF assms] same_markup_flags(2)[OF assms]
  by (rule refl)

lemma deactivated_same_markup:
  assumes "same_markup d d'"
  shows "deactivated this c d' e n =
     (case validated_container this c d of
              None \<Rightarrow> attributes d' e n
            | Some k \<Rightarrow>
                if e = c \<and> n = ''aria-expanded'' then Some ''false''
                else if e = k \<and> n = ''hidden'' then Some []
                else if e = c \<and> n = ''aria-disabled'' \<and> \<not> willToggle this d then None
                else attributes d' e n)"
  unfolding deactivated_def same_markup_validated[OF assms] same_markup_flags(2)[OF assms]
  by (rule refl)

lemma attributes_others_collapsed:
  "attributes (others_collapsed this c d) = collapsed this (others this c d) d"
  by (simp add: others_collapsed_def)

lemma update_total: "\<exists>d'. updateContainerByController this c d = Inr d'"
  by (simp add: update_eq Let_def)

lemma update_attributes:
  assumes "updateContainerByController this c d = Inr d'"
  shows "attributes d' = toggled this c d"
proof (intro ext)
  fix e n
  let ?d1 = "others_collapsed this c d"
  note sm = same_markup_others_collapsed[of d this c]
  consider (act) "\<not> isControllerExpanded d c"
    | (deact) "isControllerExpanded d c" "willToggle this d"
    | (none) "isControllerExpanded d c" "\<not> willToggle this d"
    by blast
  then show "attributes d' e n = toggled this c d e n"
  proof cases
    case act
    with assms have "attributes d' e n = activated this c ?d1 e n"
      by (auto simp: update_eq Let_def)
    then show ?thesis
      unfolding activated_same_markup[OF sm] attributes_others_collapsed using act
      by (simp add: toggled_def split: option.splits)
  next
    case deact
    with assms have "attributes d' e n = deactivated this c ?d1 e n"
      by (auto simp: update_eq Let_def)
    then show ?thesis
      unfolding deactivated_same_markup[OF sm] attributes_others_collapsed using deact
      by (simp add: toggled_def split: option.splits)
  next
    case none
    with assms have "attributes d' e n = attributes ?d1 e n"
      by (auto simp: update_eq Let_def)
    then show ?thesis
      unfolding attributes_others_collapsed using none
      by (simp add: toggled_def split: option.splits)
  qed
qed

lemma update_same_environment:
  assumes "updateContainerByController this c d = Inr d'"
  shows "same_environment d d'"
  using assms
  by (auto simp: update_eq Let_def same_environment_def others_collapsed_def split: if_splits)

lemma toggled_same_markup:
  "n \<noteq> ''aria-expanded'' \<Longrightarrow> n \<noteq> ''aria-disabled'' \<Longrightarrow> n \<noteq> ''hidden'' \<Longrightarrow>
     toggled this c d e n = attributes d e n"
  by (simp add: toggled_def collapsed_def split: option.splits)

lemma update_same_markup:
  assumes "updateContainerByController this c d = Inr d'"
  shows "same_markup d d'"
  unfolding same_markup_def update_attributes[OF assms]
  by (simp add: toggled_same_markup)

lemma update_console:
  assumes "updateContainerByController this c d = Inr d'"
  shows "console d' = console d @ concat (map (\<lambda>y. validation_report this y d) (others this c d))
            @ (if \<not> isControllerExpanded d c \<or> willToggle this d then validation_report this c d else [])"
  using assms
  by (auto simp: update_eq Let_def others_collapsed_def split: if_splits)

lemma set_others:
  "set (others this c d) =
     (if allowManyContainers this d then {}
      else {y \<in> set (controllers this). isControllerExpanded d y \<and> y \<noteq> c})"
  by (auto simp: others_def getActiveControllers_def)

lemma find_unique:
  "distinct (map f xs) \<Longrightarrow> k \<in> set xs \<Longrightarrow> List.find (\<lambda>x. f x = f k) xs = Some k"
  by (induction xs) (auto simp: image_iff)

lemma paired_validated:
  assumes "paired this d c k" and "unique_container_ids this d"
  shows "validated_container this c d = Some k"
proof -
  from assms have "getContainerByController this c d = Some k"
    by (simp add: getContainerByController_def paired_def unique_container_ids_def find_unique)
  moreover from assms(1) have "list_ex (\<lambda>controller. Some (element_id d controller) = getAttribute d k ''aria-labelledby'')
               (controllers this)"
    by (auto simp: paired_def list_ex_iff)
  ultimately show ?thesis by (simp add: validated_container_def)
qed

subsection \<open>Reading the attributes after a toggle\<close>

lemma toggled_activate:
  assumes "validated_container this c d = Some k" and "\<not> isControllerExpanded d c"
  shows "toggled this c d e n =
           (if e = c \<and> n = ''aria-expanded'' then Some ''true''
            else if e = k \<and> n = ''hidden'' then None
            else if e = c \<and> n = ''aria-disabled'' \<and> \<not> willToggle this d then Some ''true''
            else collapsed this (others this c d) d e n)"
  by (simp add: toggled_def assms)

lemma toggled_deactivate:
  assumes "validated_container this c d = Some k" and "isControllerExpanded d c"
    and "willToggle this d"
  shows "toggled this c d e n =
           (if e = c \<and> n = ''aria-expanded'' then Some ''false''
            else if e = k \<and> n = ''hidden'' then Some []
            else collapsed this (others this c d) d e n)"
  by (simp add: toggled_def assms)

lemma toggled_invalid:
  assumes "validated_container this c d = None"
  shows "toggled this c d = collapsed this (others this c d) d"
  by (simp add: toggled_def assms)

lemma toggled_stays_open:
  assumes "isControllerExpanded d c" and "\<not> willToggle this d"
  shows "toggled this c d = collapsed this (others this c d) d"
  by (simp add: toggled_def assms fun_eq_iff split: option.splits)

lemma toggled_disabled_when_toggling:
  "willToggle this d \<Longrightarrow> toggled this c d e ''aria-disabled'' = attributes d e ''aria-disabled''"
  by (simp add: toggled_def collapsed_def split: option.splits)

lemma collapsed_none: "others this c d = [] \<Longrightarrow> collapsed this (others this c d) d = attributes d"
  by (simp add: collapsed_Nil)

lemma expanded_attribute:
  "isControllerExpanded d c = (attributes d c ''aria-expanded'' = Some ''true'')"
  by (simp add: isControllerExpanded_def getAttribute_def)

subsection \<open>What a toggle can change\<close>

lemma others_subset: "set (others this c d) \<subseteq> set (controllers this)"
  by (auto simp: set_others)

lemma validated_in_containers:
  "validated_container this c d = Some k \<Longrightarrow> k \<in> set (containers this)"
  by (simp add: validated_container_Some)

lemma collapsed_frame:
  assumes "e \<notin> set ys" and "n \<noteq> ''hidden'' \<or> e \<notin> set (containers this)"
  shows "collapsed this ys d e n = attributes d e n"
  using assms
  by (auto simp: collapsed_def list_ex_iff dest: validated_in_containers simp del: not_None_eq)

lemma unique_controller_ids_eq:
  assumes "unique_controller_ids this d" and "x \<in> set (controllers this)"
    and "y \<in> set (controllers this)" and "element_id d x = element_id d y"
  shows "x = y"
  using assms by (auto simp: unique_controller_ids_def distinct_map dest: inj_onD)

lemma validation_report_entries:
  "x \<in> set (validation_report this y d) \<Longrightarrow> x = ControllerMismatch y \<or> (\<exists>k. x = ContainerMismatch k)"
  by (auto simp: validation_report_def split: if_splits)

lemma unknown_container_invalid:
  assumes "\<not> list_ex (\<lambda>k. Some (element_id d k) = getAttribute d c ''aria-controls'') (containers this)"
  shows "validated_container this c d = None" and "validation_report this c d = [ControllerMismatch c]"
  using assms
  by (simp_all add: validated_container_def getContainerByController_def validation_report_def
      find_None_list_ex[THEN iffD2])

lemma collapsed_changes:
  assumes "collapsed this ys d e n \<noteq> attributes d e n"
  shows "\<exists>y\<in>set ys. validated_container this y d \<noteq> None
           \<and> ((e = y \<and> (n = ''aria-expanded'' \<or> n = ''aria-disabled''))
               \<or> (validated_container this y d = Some e \<and> n = ''hidden''))"
  using assms
  by (auto simp: collapsed_def list_ex_iff split: if_splits simp del: not_None_eq)

lemma toggled_changes:
  assumes "toggled this c d e n \<noteq> attributes d e n"
  shows "((e = c \<or> e \<in> set (others this c d)) \<and> (n = ''aria-expanded'' \<or> n = ''aria-disabled''))
         \<or> (e \<in> set (containers this) \<and> n = ''hidden'')"
proof (cases "collapsed this (others this c d) d e n = attributes d e n")
  case True
  with assms show ?thesis
    by (auto simp: toggled_def split: option.splits if_splits dest: validated_in_containers)
next
  case False
  from collapsed_changes[OF this] show ?thesis
    by (auto dest: validated_in_containers)
qed

lemma toggled_other_expanded:
  "e \<noteq> c \<Longrightarrow> toggled this c d e ''aria-expanded'' = collapsed this (others this c d) d e ''aria-expanded''"
  by (simp add: toggled_def split: option.splits)

lemma toggled_other_hidden:
  "validated_container this c d \<noteq> Some e \<Longrightarrow>
     toggled this c d e ''hidden'' = collapsed this (others this c d) d e ''hidden''"
  by (auto simp: toggled_def split: option.splits)

lemma same_markup_sole:
  assumes "same_markup d d'"
  shows "sole_controller this d' c k = sole_controller this d c k"
  by (simp add: sole_controller_def same_markup_reads[OF assms])

lemma sole_owner:
  assumes "sole_controller this d c k" and "y \<in> set (controllers this)"
    and "validated_container this y d = Some k"
  shows "y = c"
proof -
  from validated_container_Some[OF assms(3)]
  have "getAttribute d y ''aria-controls'' = Some (element_id d k)" by simp
  with assms(1,2) show ?thesis by (simp add: sole_controller_def)
qed

lemma collapsed_pair:
  assumes vc: "validated_container this c d = Some k"
    and sole: "sole_controller this d c k" and sub: "set ys \<subseteq> set (controllers this)"
  shows "collapsed this ys d k ''hidden''
               = (if c \<in> set ys then Some [] else attributes d k ''hidden'')"
    and "collapsed this ys d c ''aria-expanded''
               = (if c \<in> set ys then Some ''false'' else attributes d c ''aria-expanded'')"
proof -
  have "y = c" if "y \<in> set ys" "validated_container this y d = Some k" for y
    using sole_owner[OF sole _ that(2)] that(1) sub by auto
  then show "collapsed this ys d k ''hidden''
               = (if c \<in> set ys then Some [] else attributes d k ''hidden'')"
    using vc by (auto simp: collapsed_def list_ex_iff)
  show "collapsed this ys d c ''aria-expanded''
               = (if c \<in> set ys then Some ''false'' else attributes d c ''aria-expanded'')"
    by (simp add: collapsed_def vc)
qed

lemma toggle_preserves_pair:
  assumes p: "paired this d c k"
    and u: "unique_container_ids this d" and sole: "sole_controller this d c k"
    and x: "x \<in> set (controllers this)"
    and run: "updateContainerByController this x d = Inr d'"
    and inv: "(\<not> hasAttribute d k ''hidden'') = isControllerExpanded d c"
  shows "(\<not> hasAttribute d' k ''hidden'') = isControllerExpanded d' c"
proof -
  have vc: "validated_container this c d = Some k"
    by (rule paired_validated[OF p u])
  from inv have before: "(attributes d k ''hidden'' = None) = (attributes d c ''aria-expanded'' = Some ''true'')"
    by (simp add: hasAttribute_def expanded_attribute)
  note cp = collapsed_pair[OF vc sole others_subset[of this x d]]
  have at: "attributes d' = toggled this x d" by (rule update_attributes[OF run])
  show ?thesis
  proof (cases "x = c")
    case False
    then have "validated_container this x d \<noteq> Some k" using sole_owner[OF sole x] by auto
    then show ?thesis
      using False before
      by (simp add: hasAttribute_def expanded_attribute at toggled_other_expanded
          toggled_other_hidden cp)
  next
    case True
    have out: "c \<notin> set (others this x d)" using True others_not_self[of x this d] by simp
    consider (act) "\<not> isControllerExpanded d c"
      | (deact) "isControllerExpanded d c" "willToggle this d"
      | (stay) "isControllerExpanded d c" "\<not> willToggle this d"
      by blast
    then show ?thesis
    proof cases
      case act
      show ?thesis
        unfolding hasAttribute_def expanded_attribute at True
        by (simp add: toggled_activate[OF vc act])
    next
      case deact
      show ?thesis
        unfolding hasAttribute_def expanded_attribute at True
        by (simp add: toggled_deactivate[OF vc deact])
    next
      case stay
      show ?thesis
        unfolding hasAttribute_def expanded_attribute at True toggled_stays_open[OF stay]
        using out before True cp by simp
    qed
  qed
qed

lemma toggles_preserve_pair:
  assumes "paired this d c k"
    and "unique_container_ids this d" and "sole_controller this d c k"
    and "set cs \<subseteq> set (controllers this)"
    and "(\<not> hasAttribute d k ''hidden'') = isControllerExpanded d c"
  shows "\<exists>d'. toggles this cs d = Inr d' \<and> paired this d' c k
           \<and> (\<not> hasAttribute d' k ''hidden'') = isControllerExpanded d' c"
  using assms
proof (induction cs arbitrary: d)
  case Nil
  then show ?case by simp
next
  case (Cons x cs)
  obtain d1 where run: "updateContainerByController this x d = Inr d1"
    using update_total by blast
  have sm: "same_markup d d1" by (rule update_same_markup[OF run])
  from Cons.prems have x: "x \<in> set (controllers this)" and cs: "set cs \<subseteq> set (controllers this)"
    by simp_all
  have 1: "(\<not> hasAttribute d1 k ''hidden'') = isControllerExpanded d1 c"
    by (rule toggle_preserves_pair[OF Cons.prems(1-3) x run Cons.prems(5)])
  have 2: "paired this d1 c k" "unique_container_ids this d1" "sole_controller this d1 c k"
    using Cons.prems(1-3)
    by (simp_all add: same_markup_paired[OF sm] same_markup_unique[OF sm] same_markup_sole[OF sm])
  from Cons.IH[OF 2 cs 1] show ?case by (simp add: run)
qed

subsection \<open>Initialisation\<close>

lemma processControllerEvents_state:
  "attributes (processControllerEvents this d) = attributes d
   \<and> console (processControllerEvents this d) = console d
   \<and> activeElement (processControllerEvents this d) = activeElement d
   \<and> focusable (processControllerEvents this d) = focusable d
   \<and> querySelector (processControllerEvents this d) = querySelector d
   \<and> querySelectorAll (processControllerEvents this d) = querySelectorAll d"
proof -
  have "attributes (fold (\<lambda>controller d'. manageControllerEvents controller this (manageRootEvents controller this d')) cs d) = attributes d
   \<and> console (fold (\<lambda>controller d'. manageControllerEvents controller this (manageRootEvents controller this d')) cs d) = console d
   \<and> activeElement (fold (\<lambda>controller d'. manageControllerEvents controller this (manageRootEvents controller this d')) cs d) = activeElement d
   \<and> focusable (fold (\<lambda>controller d'. manageControllerEvents controller this (manageRootEvents controller this d')) cs d) = focusable d
   \<and> querySelector (fold (\<lambda>controller d'. manageControllerEvents controller this (manageRootEvents controller this d')) cs d) = querySelector d
   \<and> querySelectorAll (fold (\<lambda>controller d'. manageControllerEvents controller this (manageRootEvents controller this d')) cs d) = querySelectorAll d" for cs
    by (induction cs arbitrary: d)
       (simp_all add: manageControllerEvents_def manageRootEvents_def addEventListener_def)
  then show ?thesis by (simp add: processControllerEvents_def)
qed

lemma same_markup_processControllerEvents: "same_markup d (processControllerEvents this d)"
  by (simp add: same_markup_def processControllerEvents_state)

lemma initialize_eq:
  "initialize this d =
     Inr ((processControllerEvents this d)
            \<lparr>attributes :=
               collapsed this
                 (filter (\<lambda>controller. \<not> hasAttribute d controller ''aria-expanded''
                            \<or> getAttribute d controller ''aria-expanded'' = Some ''false'')
                    (controllers this))
                 (processControllerEvents this d),
             console := console d @
               concat (map (\<lambda>y. validation_report this y d)
                 (filter (\<lambda>controller. \<not> hasAttribute d controller ''aria-expanded''
                            \<or> getAttribute d controller ''aria-expanded'' = Some ''false'')
                    (controllers this)))\<rparr>)"
  by (simp add: initialize_def defaultContainersByControllers_def collapse_loop
      hasAttribute_def getAttribute_def processControllerEvents_state
      same_markup_report[OF same_markup_processControllerEvents])

lemma new_Accordion_Inr:
  assumes "new_Accordion r d = Inr (this, d0)"
  shows "initialize this d = Inr d0"
    and "controllers this = querySelectorAll d (root this) ''.accordion__button''"
    and "containers this = querySelectorAll d (root this) ''.accordion__section''"
    and "(case r of Some x \<Rightarrow> Some x | None \<Rightarrow> querySelector d ''.accordion'') = Some (root this)"
  using assms
  by (auto simp: new_Accordion_def Let_def enumerateElements_def split: option.splits sum.splits)

lemma initialize_attributes:
  assumes "initialize this d = Inr d0"
  shows "attributes d0 e n =
           collapsed this
             (filter (\<lambda>controller. \<not> hasAttribute d controller ''aria-expanded''
                            \<or> getAttribute d controller ''aria-expanded'' = Some ''false'')
                (controllers this)) d e n"
proof -
  let ?ys = "filter (\<lambda>controller. \<not> hasAttribute d controller ''aria-expanded''
                            \<or> getAttribute d controller ''aria-expanded'' = Some ''false'')
                (controllers this)"
  have sm: "same_markup d (processControllerEvents this d)"
    by (rule same_markup_processControllerEvents)
  have "d0 = (processControllerEvents this d)
            \<lparr>attributes := collapsed this ?ys (processControllerEvents this d),
             console := console d @ concat (map (\<lambda>y. validation_report this y d) ?ys)\<rparr>"
    using assms unfolding initialize_eq by simp
  then have "attributes d0 e n = collapsed this ?ys (processControllerEvents this d) e n"
    by simp
  also have "\<dots> = collapsed this ?ys d e n"
    by (subst collapsed_same_markup[OF sm])
      (simp only: collapsed_def processControllerEvents_state)
  finally show ?thesis .
qed

lemma initialize_same_markup:
  assumes "initialize this d = Inr d0"
  shows "same_markup d d0"
  by (simp add: same_markup_def initialize_attributes[OF assms] collapsed_def)

lemmas construct_simps = new_Accordion_def initialize_def defaultContainersByControllers_def
  processControllerEvents_def manageRootEvents_def manageControllerEvents_def
  addEventListener_def enumerateElements_def

subsection \<open>Moving the focus\<close>

lemma activeElement_classList:
  "activeElement (classList_add e t d) = activeElement d"
  "activeElement (classList_remove e t d) = activeElement d"
  by (simp_all add: classList_add_def classList_remove_def setAttribute_def Let_def)

lemma handleEvent_activeElement: "activeElement (handleEvent h d) = activeElement d"
proof (cases h)
  case (UpdateContainerByController w c)
  obtain d' where run: "updateContainerByController w c d = Inr d'"
    using update_total by blast
  from update_same_environment[OF run] show ?thesis
    by (simp add: handleEvent_def UpdateContainerByController run same_environment_def)
qed (simp_all add: handleEvent_def activateRoot_def deactivateRoot_def activeElement_classList
      console_error_def)

lemma dispatchEvent_activeElement: "activeElement (dispatchEvent e type d) = activeElement d"
proof -
  have "activeElement (fold (\<lambda>l d'. handleEvent (snd (snd l)) d') ls d0) = activeElement d0" for ls :: "(addr \<times> string \<times> handler) list" and d0
    by (induction ls arbitrary: d0) (simp_all add: handleEvent_activeElement)
  then show ?thesis by (simp add: dispatchEvent_def)
qed

lemma focus_element_active:
  assumes "focusable d (attributes d) e"
  shows "activeElement (focus_element e d) = Some e"
  using assms
  by (simp add: focus_element_def Let_def dispatchEvent_activeElement)

subsection \<open>Evaluating the example pages\<close>

lemmas page_simps = two_pairs_def two_pairs_widget_def page_def element_attributes_def
  getAttribute_def hasAttribute_def element_id_def paired_def isControllerExpanded_def
  willToggle_def allowManyContainers_def unique_container_ids_def unique_controller_ids_def

lemmas run_simps = updateContainerByController_def deactivateContainerByController_def
  activateContainerByController_def isController_def isContainer_def getActiveControllers_def
  getContainerByController_def setAttribute_def removeAttribute_def console_error_def Let_def

lemmas focus_simps = focus_element_def dispatchEvent_def handleEvent_def activateRoot_def
  deactivateRoot_def classList_add_def classList_remove_def classList_def ascii_whitespace_def

section \<open>Keyboard navigation wraps; Home and End\<close>

text \<open>
  C9. In a widget with at least one controller (the controllers are the distinct elements of
  a node list), the lookup of the previous controller on the first one gives the last, the
  lookup of the next controller on the last one gives the first, and the key handler of
  any controller \<open>c\<close> prevents the default action and calls \<^verbatim>\<open>focus()\<close> on the
  controller at index 0 on Home and on the one at index length - 1 on End, whatever has
  the focus. The two arrow keys are included: ArrowUp on the first controller calls
  \<^verbatim>\<open>focus()\<close> on the last, ArrowDown on the last calls it on the first. The call is
  \<^verbatim>\<open>element.focus()\<close> with its listeners: when the target can take the focus, the
  focus is on the target afterwards (the blur and focus listeners have run and have left
  it there); when it cannot, nothing changes.
\<close>

theorem keyboard_wrap_home_end:
  assumes "controllers context \<noteq> []" and "distinct (controllers context)"
  shows "getPrevController (controllers context ! 0) context
           = Some (controllers context ! (length (controllers context) - 1))
       \<and> getNextController (controllers context ! (length (controllers context) - 1)) context
           = Some (controllers context ! 0)
       \<and> navigateControllerEvent c context \<lparr>key = ''Home'', ctrlKey = ck, defaultPrevented = dp\<rparr> d
           = Inr (\<lparr>key = ''Home'', ctrlKey = ck, defaultPrevented = True\<rparr>,
                  focus_element (controllers context ! 0) d)
       \<and> navigateControllerEvent c context \<lparr>key = ''End'', ctrlKey = ck, defaultPrevented = dp\<rparr> d
           = Inr (\<lparr>key = ''End'', ctrlKey = ck, defaultPrevented = True\<rparr>,
                  focus_element (controllers context ! (length (controllers context) - 1)) d)
       \<and> navigateControllerEvent (controllers context ! 0) context
             \<lparr>key = ''ArrowUp'', ctrlKey = ck, defaultPrevented = dp\<rparr> d
           = Inr (\<lparr>key = ''ArrowUp'', ctrlKey = ck, defaultPrevented = True\<rparr>,
                  focus_element (controllers context ! (length (controllers context) - 1)) d)
       \<and> navigateControllerEvent (controllers context ! (length (controllers context) - 1)) context
             \<lparr>key = ''ArrowDown'', ctrlKey = ck, defaultPrevented = dp\<rparr> d
           = Inr (\<lparr>key = ''ArrowDown'', ctrlKey = ck, defaultPrevented = True\<rparr>,
                  focus_element (controllers context ! 0) d)
       \<and> (focusable d (attributes d) (controllers context ! 0)
            \<longrightarrow> activeElement (focus_element (controllers context ! 0) d)
                  = Some (controllers context ! 0))
       \<and> (focusable d (attributes d) (controllers context ! (length (controllers context) - 1))
            \<longrightarrow> activeElement (focus_element (controllers context ! (length (controllers context) - 1)) d)
                  = Some (controllers context ! (length (controllers context) - 1)))
       \<and> (\<forall>t. \<not> focusable d (attributes d) t \<longrightarrow> focus_element t d = d)"
proof -
  have unfocusable: "\<forall>t. \<not> focusable d (attributes d) t \<longrightarrow> focus_element t d = d"
    by (simp add: focus_element_def)
  show ?thesis
    using prev_first[OF assms(1)] next_last[OF assms] first_last[OF assms(1)] unfocusable
    by (simp add: navigateControllerEvent_def navigate_step_def isKeyup_def isKeydown_def
        key_tests focus_def preventDefault_def focus_element_active)
qed

theorem keyboard_wrap_home_end_witness:
  "controllers (two_pairs_widget [1, 2]) \<noteq> [] \<and> distinct (controllers (two_pairs_widget [1, 2]))
   \<and> getPrevController 1 (two_pairs_widget [1, 2]) = Some 2
   \<and> getNextController 2 (two_pairs_widget [1, 2]) = Some 1
   \<and> focusable (snd (projr (new_Accordion None markup_plain)))
        (attributes (snd (projr (new_Accordion None markup_plain)))) 2
   \<and> (\<exists>d'. navigateControllerEvent 1 (two_pairs_widget [1, 2])
               \<lparr>key = ''End'', ctrlKey = False, defaultPrevented = False\<rparr>
               (snd (projr (new_Accordion None markup_plain)))
             = Inr (\<lparr>key = ''End'', ctrlKey = False, defaultPrevented = True\<rparr>, d')
           \<and> activeElement d' = Some 2
           \<and> getAttribute d' 0 ''class'' = Some ''accordion--is-focused'')"
proof -
  have h1: "controllers (two_pairs_widget [1, 2]) \<noteq> []"
    and h2: "distinct (controllers (two_pairs_widget [1, 2]))"
    and last: "controllers (two_pairs_widget [1, 2]) ! (length (controllers (two_pairs_widget [1, 2])) - 1) = 2"
    and first: "controllers (two_pairs_widget [1, 2]) ! 0 = 1"
    by (simp_all add: two_pairs_widget_def)
  have f: "focusable (snd (projr (new_Accordion None markup_plain)))
        (attributes (snd (projr (new_Accordion None markup_plain)))) 2"
    by (simp add: markup_plain_def construct_simps run_simps page_simps)
  have cls: "getAttribute (focus_element 2 (snd (projr (new_Accordion None markup_plain)))) 0 ''class''
               = Some ''accordion--is-focused''"
    by (simp add: markup_plain_def construct_simps run_simps page_simps focus_simps)
  show ?thesis
    using h1 h2 f cls
      keyboard_wrap_home_end [OF h1 h2, of 1 False False "snd (projr (new_Accordion None markup_plain))"]
    unfolding last first
    by simp
qed

section \<open>Construction without a root\<close>

text \<open>
  C3. The constructor of \<^verbatim>\<open>accordion.ts\<close>, called with no root on a page that has no
  element matching \<^verbatim>\<open>.accordion\<close>, throws a \<^verbatim>\<open>TypeError\<close> at
  \<^verbatim>\<open>this.root.querySelectorAll\<close>: it does not return an inert widget.
\<close>

theorem constructor_without_root_throws:
  "new_Accordion None page_without_accordion = Inl TypeError"
  by (simp add: new_Accordion_def page_without_accordion_def page_def)

section \<open>Deactivation by a toggle, and the disabled mark\<close>

text \<open>
  C5, as the code has it. For a validly paired controller that is expanded, in a widget
  with unique container ids and toggling-closed allowed, the toggle operation sets
  \<^verbatim>\<open>aria-expanded="false"\<close> on the controller and \<^verbatim>\<open>hidden=""\<close> on its container, and
  leaves the controller's \<^verbatim>\<open>aria-disabled\<close> attribute as it was: the source removes it
  only under \<^verbatim>\<open>if (!context.willToggle())\<close>.
\<close>

theorem toggle_expanded_keeps_disabled:
  assumes "paired this d c k" and "unique_container_ids this d"
    and "isControllerExpanded d c" and "willToggle this d"
  shows "\<exists>d'. updateContainerByController this c d = Inr d'
           \<and> getAttribute d' c ''aria-expanded'' = Some ''false''
           \<and> getAttribute d' k ''hidden'' = Some []
           \<and> getAttribute d' c ''aria-disabled'' = getAttribute d c ''aria-disabled''"
proof -
  obtain d' where run: "updateContainerByController this c d = Inr d'"
    using update_total by blast
  have v: "validated_container this c d = Some k"
    by (rule paired_validated[OF assms(1,2)])
  have at: "attributes d' e n =
           (if e = c \<and> n = ''aria-expanded'' then Some ''false''
            else if e = k \<and> n = ''hidden'' then Some []
            else collapsed this (others this c d) d e n)" for e n
    unfolding update_attributes[OF run] by (rule toggled_deactivate[OF v assms(3,4)])
  have "getAttribute d' c ''aria-expanded'' = Some ''false''"
    and "getAttribute d' k ''hidden'' = Some []"
    by (simp_all add: getAttribute_def at)
  moreover have "getAttribute d' c ''aria-disabled'' = getAttribute d c ''aria-disabled''"
    using others_not_self[of c this d]
    by (simp add: getAttribute_def at collapsed_def)
  ultimately show ?thesis using run by blast
qed

theorem toggle_expanded_keeps_disabled_witness:
  "paired (two_pairs_widget [1, 2]) open_and_disabled 1 3
   \<and> unique_container_ids (two_pairs_widget [1, 2]) open_and_disabled
   \<and> isControllerExpanded open_and_disabled 1
   \<and> willToggle (two_pairs_widget [1, 2]) open_and_disabled
   \<and> (\<exists>d'. updateContainerByController (two_pairs_widget [1, 2]) 1 open_and_disabled = Inr d'
           \<and> getAttribute d' 1 ''aria-expanded'' = Some ''false''
           \<and> getAttribute d' 3 ''hidden'' = Some []
           \<and> getAttribute d' 1 ''aria-disabled'' = Some ''true'')"
proof -
  have h1: "paired (two_pairs_widget [1, 2]) open_and_disabled 1 3"
    and h2: "unique_container_ids (two_pairs_widget [1, 2]) open_and_disabled"
    and h3: "isControllerExpanded open_and_disabled 1"
    and h4: "willToggle (two_pairs_widget [1, 2]) open_and_disabled"
    by (simp_all add: open_and_disabled_def page_simps)
  have before: "getAttribute open_and_disabled 1 ''aria-disabled'' = Some ''true''"
    by (simp add: open_and_disabled_def page_simps)
  show ?thesis
    using h1 h2 h3 h4 before toggle_expanded_keeps_disabled [OF h1 h2 h3 h4]
    by simp
qed

text \<open>
  The claim as stated fails: toggling is allowed, button 1 is expanded, validly paired and
  marked disabled; after the toggle it still carries \<^verbatim>\<open>aria-disabled="true"\<close>.
\<close>

theorem toggle_expanded_clears_disabled_counterexample:
  "paired (two_pairs_widget [1, 2]) open_and_disabled 1 3
   \<and> isControllerExpanded open_and_disabled 1
   \<and> willToggle (two_pairs_widget [1, 2]) open_and_disabled
   \<and> \<not> isl (updateContainerByController (two_pairs_widget [1, 2]) 1 open_and_disabled)
   \<and> getAttribute (projr (updateContainerByController (two_pairs_widget [1, 2]) 1 open_and_disabled))
        1 ''aria-disabled'' = Some ''true''"
  by (simp add: open_and_disabled_def run_simps page_simps)

section \<open>Many containers: both pairs open\<close>

text \<open>
  C6, as the code has it. In a widget whose root allows many containers, with unique
  container ids, toggling a collapsed, validly paired controller \<open>a\<close> and then another
  collapsed, validly paired controller \<open>b\<close> leaves both expanded and both containers
  visible, and leaves \<^verbatim>\<open>aria-disabled\<close> on every element as it was before the two
  toggles: neither controller carries it afterwards exactly when neither carried it before.
\<close>

theorem many_containers_both_open:
  assumes "allowManyContainers this d"
    and "paired this d a ka" and "paired this d b kb" and "unique_container_ids this d"
    and "a \<noteq> b" and "\<not> isControllerExpanded d a" and "\<not> isControllerExpanded d b"
  shows "\<exists>d'. toggles this [a, b] d = Inr d'
           \<and> isControllerExpanded d' a \<and> isControllerExpanded d' b
           \<and> \<not> hasAttribute d' ka ''hidden'' \<and> \<not> hasAttribute d' kb ''hidden''
           \<and> (\<forall>e. getAttribute d' e ''aria-disabled'' = getAttribute d e ''aria-disabled'')"
proof -
  obtain d1 where run1: "updateContainerByController this a d = Inr d1"
    using update_total by blast
  obtain d2 where run2: "updateContainerByController this b d1 = Inr d2"
    using update_total by blast
  have sm: "same_markup d d1" by (rule update_same_markup[OF run1])
  have va: "validated_container this a d = Some ka"
    by (rule paired_validated[OF assms(2,4)])
  have vb: "validated_container this b d = Some kb"
    by (rule paired_validated[OF assms(3,4)])
  have vb1: "validated_container this b d1 = Some kb"
    by (simp add: same_markup_validated[OF sm] vb)
  have many1: "allowManyContainers this d1"
    by (simp add: same_markup_flags(1)[OF sm] assms(1))
  have wt: "willToggle this d" "willToggle this d1"
    using assms(1) many1 by (simp_all add: willToggle_def)
  have o: "others this a d = []" "others this b d1 = []"
    using assms(1) many1 by (simp_all add: others_def)
  have at1: "attributes d1 e n =
           (if e = a \<and> n = ''aria-expanded'' then Some ''true''
            else if e = ka \<and> n = ''hidden'' then None
            else attributes d e n)" for e n
    unfolding update_attributes[OF run1] toggled_activate[OF va assms(6)] collapsed_none[OF o(1)]
    by (simp add: wt)
  have b1: "\<not> isControllerExpanded d1 b"
    using assms(5,7) by (simp add: expanded_attribute at1)
  have at2: "attributes d2 e n =
           (if e = b \<and> n = ''aria-expanded'' then Some ''true''
            else if e = kb \<and> n = ''hidden'' then None
            else attributes d1 e n)" for e n
    unfolding update_attributes[OF run2] toggled_activate[OF vb1 b1] collapsed_none[OF o(2)]
    by (simp add: wt)
  have "isControllerExpanded d2 a" and "isControllerExpanded d2 b"
    by (simp_all add: expanded_attribute at2 at1)
  moreover have "\<not> hasAttribute d2 ka ''hidden''" and "\<not> hasAttribute d2 kb ''hidden''"
    by (simp_all add: hasAttribute_def at2 at1)
  moreover have "getAttribute d2 e ''aria-disabled'' = getAttribute d e ''aria-disabled''" for e
    by (simp add: getAttribute_def at2 at1)
  ultimately show ?thesis by (simp add: run1 run2)
qed

theorem many_containers_both_open_witness:
  "allowManyContainers (two_pairs_widget [1, 2]) many_collapsed_and_disabled
   \<and> paired (two_pairs_widget [1, 2]) many_collapsed_and_disabled 1 3
   \<and> paired (two_pairs_widget [1, 2]) many_collapsed_and_disabled 2 4
   \<and> unique_container_ids (two_pairs_widget [1, 2]) many_collapsed_and_disabled
   \<and> \<not> isControllerExpanded many_collapsed_and_disabled 1
   \<and> \<not> isControllerExpanded many_collapsed_and_disabled 2
   \<and> (\<exists>d'. toggles (two_pairs_widget [1, 2]) [1, 2] many_collapsed_and_disabled = Inr d'
           \<and> isControllerExpanded d' 1 \<and> isControllerExpanded d' 2
           \<and> \<not> hasAttribute d' 3 ''hidden'' \<and> \<not> hasAttribute d' 4 ''hidden''
           \<and> getAttribute d' 1 ''aria-disabled'' = Some ''true''
           \<and> getAttribute d' 2 ''aria-disabled'' = None)"
proof -
  have h1: "allowManyContainers (two_pairs_widget [1, 2]) many_collapsed_and_disabled"
    and h2: "paired (two_pairs_widget [1, 2]) many_collapsed_and_disabled 1 3"
    and h3: "paired (two_pairs_widget [1, 2]) many_collapsed_and_disabled 2 4"
    and h4: "unique_container_ids (two_pairs_widget [1, 2]) many_collapsed_and_disabled"
    and h5: "(1::addr) \<noteq> 2"
    and h6: "\<not> isControllerExpanded many_collapsed_and_disabled 1"
    and h7: "\<not> isControllerExpanded many_collapsed_and_disabled 2"
    by (simp_all add: many_collapsed_and_disabled_def page_simps)
  have before: "getAttribute many_collapsed_and_disabled 1 ''aria-disabled'' = Some ''true''"
    "getAttribute many_collapsed_and_disabled 2 ''aria-disabled'' = None"
    by (simp_all add: many_collapsed_and_disabled_def page_simps)
  from many_containers_both_open [OF h1 h2 h3 h4 h5 h6 h7] obtain d' where
    "toggles (two_pairs_widget [1, 2]) [1, 2] many_collapsed_and_disabled = Inr d'"
    "isControllerExpanded d' 1" "isControllerExpanded d' 2"
    "\<not> hasAttribute d' 3 ''hidden''" "\<not> hasAttribute d' 4 ''hidden''"
    "\<forall>e. getAttribute d' e ''aria-disabled'' = getAttribute many_collapsed_and_disabled e ''aria-disabled''"
    by blast
  then show ?thesis
    using h1 h2 h3 h4 h6 h7 before by simp
qed

text \<open>
  The claim as stated fails: many containers are allowed, both pairs are valid and
  collapsed, and after toggling button 1 and then button 2 the first button carries
  \<^verbatim>\<open>aria-disabled\<close>, which it carried before.
\<close>

theorem many_containers_neither_disabled_counterexample:
  "allowManyContainers (two_pairs_widget [1, 2]) many_collapsed_and_disabled
   \<and> paired (two_pairs_widget [1, 2]) many_collapsed_and_disabled 1 3
   \<and> paired (two_pairs_widget [1, 2]) many_collapsed_and_disabled 2 4
   \<and> \<not> isControllerExpanded many_collapsed_and_disabled 1
   \<and> \<not> isControllerExpanded many_collapsed_and_disabled 2
   \<and> \<not> isl (toggles (two_pairs_widget [1, 2]) [1, 2] many_collapsed_and_disabled)
   \<and> hasAttribute (projr (toggles (two_pairs_widget [1, 2]) [1, 2] many_collapsed_and_disabled))
        1 ''aria-disabled''"
  by (simp add: many_collapsed_and_disabled_def run_simps page_simps)

section \<open>Toggling twice\<close>

text \<open>
  Whatever state a collapsed, validly paired controller starts in, a toggle that opens it
  followed by a toggle that closes it leaves the pair in the collapsed state as the widget
  writes it: every attribute of the two elements as before, but \<^verbatim>\<open>aria-expanded="false"\<close>
  on the controller and \<^verbatim>\<open>hidden=""\<close> on the container.
\<close>

lemma toggle_twice_normalises:
  assumes "paired this d c k" and "unique_container_ids this d"
    and "set (controllers this) \<inter> set (containers this) = {}"
    and "willToggle this d" and "\<not> isControllerExpanded d c"
  shows "\<exists>d1 d2. updateContainerByController this c d = Inr d1
           \<and> isControllerExpanded d1 c \<and> \<not> hasAttribute d1 k ''hidden''
           \<and> updateContainerByController this c d1 = Inr d2
           \<and> attributes d2 c = (attributes d c)(''aria-expanded'' \<mapsto> ''false'')
           \<and> attributes d2 k = (attributes d k)(''hidden'' \<mapsto> [])"
proof -
  obtain d1 where run1: "updateContainerByController this c d = Inr d1"
    using update_total by blast
  obtain d2 where run2: "updateContainerByController this c d1 = Inr d2"
    using update_total by blast
  have sm: "same_markup d d1" by (rule update_same_markup[OF run1])
  have v: "validated_container this c d = Some k"
    by (rule paired_validated[OF assms(1,2)])
  have v1: "validated_container this c d1 = Some k"
    by (simp add: same_markup_validated[OF sm] v)
  have wt1: "willToggle this d1"
    by (simp add: same_markup_flags(2)[OF sm] assms(4))
  from assms(1) have c: "c \<in> set (controllers this)" and k: "k \<in> set (containers this)"
    by (simp_all add: paired_def)
  with assms(3) have ck: "c \<notin> set (containers this)" "k \<notin> set (controllers this)" "c \<noteq> k"
    by auto
  have kout: "k \<notin> set (others this c d')" for d'
    using ck(2) others_subset[of this c d'] by auto
  have at1: "attributes d1 e n =
           (if e = c \<and> n = ''aria-expanded'' then Some ''true''
            else if e = k \<and> n = ''hidden'' then None
            else collapsed this (others this c d) d e n)" for e n
    unfolding update_attributes[OF run1] toggled_activate[OF v assms(5)]
    by (simp add: assms(4))
  have exp1: "isControllerExpanded d1 c"
    by (simp add: expanded_attribute at1)
  have at2: "attributes d2 e n =
           (if e = c \<and> n = ''aria-expanded'' then Some ''false''
            else if e = k \<and> n = ''hidden'' then Some []
            else collapsed this (others this c d1) d1 e n)" for e n
    unfolding update_attributes[OF run2] by (rule toggled_deactivate[OF v1 exp1 wt1])
  have c2: "attributes d2 c n = ((attributes d c)(''aria-expanded'' \<mapsto> ''false'')) n" for n
    using ck by (simp add: at2 at1 collapsed_frame others_not_self)
  have k2: "attributes d2 k n = ((attributes d k)(''hidden'' \<mapsto> [])) n" for n
    using ck by (simp add: at2 at1 collapsed_frame kout)
  have "\<not> hasAttribute d1 k ''hidden''"
    using ck by (simp add: hasAttribute_def at1)
  with run1 run2 exp1 c2 k2 show ?thesis by (auto simp: fun_eq_iff)
qed

text \<open>
  C7. For a validly paired controller and container that start collapsed
  (\<^verbatim>\<open>aria-expanded="false"\<close>, \<^verbatim>\<open>hidden=""\<close>, the state every deactivation writes), in a
  widget with unique container ids in which no element is both a controller and a
  container, and with toggling-closed allowed: the first toggle expands the pair, the
  second collapses it, and afterwards the attributes of the controller and of the
  container are exactly what they were.
\<close>

theorem toggle_twice_restores:
  assumes "paired this d c k" and "unique_container_ids this d"
    and "set (controllers this) \<inter> set (containers this) = {}"
    and "willToggle this d"
    and "getAttribute d c ''aria-expanded'' = Some ''false''"
    and "getAttribute d k ''hidden'' = Some []"
  shows "\<exists>d1 d2. updateContainerByController this c d = Inr d1
           \<and> isControllerExpanded d1 c \<and> \<not> hasAttribute d1 k ''hidden''
           \<and> updateContainerByController this c d1 = Inr d2
           \<and> attributes d2 c = attributes d c
           \<and> attributes d2 k = attributes d k"
proof -
  have n: "\<not> isControllerExpanded d c"
    by (simp add: isControllerExpanded_def assms(5))
  have "(attributes d c)(''aria-expanded'' \<mapsto> ''false'') = attributes d c"
    and "(attributes d k)(''hidden'' \<mapsto> []) = attributes d k"
    using assms(5,6) by (auto simp: getAttribute_def fun_eq_iff)
  with toggle_twice_normalises[OF assms(1-4) n] show ?thesis by simp
qed

theorem toggle_twice_restores_witness:
  "paired (two_pairs_widget [1, 2]) toggle_first_collapsed 1 3
   \<and> unique_container_ids (two_pairs_widget [1, 2]) toggle_first_collapsed
   \<and> set (controllers (two_pairs_widget [1, 2])) \<inter> set (containers (two_pairs_widget [1, 2])) = {}
   \<and> willToggle (two_pairs_widget [1, 2]) toggle_first_collapsed
   \<and> getAttribute toggle_first_collapsed 1 ''aria-expanded'' = Some ''false''
   \<and> getAttribute toggle_first_collapsed 3 ''hidden'' = Some []
   \<and> (\<exists>d1 d2. updateContainerByController (two_pairs_widget [1, 2]) 1 toggle_first_collapsed = Inr d1
           \<and> isControllerExpanded d1 1 \<and> \<not> hasAttribute d1 3 ''hidden''
           \<and> updateContainerByController (two_pairs_widget [1, 2]) 1 d1 = Inr d2
           \<and> attributes d2 1 = attributes toggle_first_collapsed 1
           \<and> attributes d2 3 = attributes toggle_first_collapsed 3)"
proof -
  have h1: "paired (two_pairs_widget [1, 2]) toggle_first_collapsed 1 3"
    and h2: "unique_container_ids (two_pairs_widget [1, 2]) toggle_first_collapsed"
    and h3: "set (controllers (two_pairs_widget [1, 2])) \<inter> set (containers (two_pairs_widget [1, 2])) = {}"
    and h4: "willToggle (two_pairs_widget [1, 2]) toggle_first_collapsed"
    and h5: "getAttribute toggle_first_collapsed 1 ''aria-expanded'' = Some ''false''"
    and h6: "getAttribute toggle_first_collapsed 3 ''hidden'' = Some []"
    by (simp_all add: toggle_first_collapsed_def page_simps)
  show ?thesis
    using h1 h2 h3 h4 h5 h6 toggle_twice_restores [OF h1 h2 h3 h4 h5 h6]
    by simp
qed

section \<open>One container at a time\<close>

text \<open>
  C1, as the code has it. In a widget without the many-containers attribute, with unique
  container ids and unique controller ids, let \<open>a\<close> and \<open>b\<close> be validly paired controllers,
  \<open>a\<close> expanded and \<open>b\<close> collapsed. The toggle operation on \<open>b\<close> leaves \<open>a\<close> collapsed
  (\<^verbatim>\<open>aria-expanded="false"\<close>, its container hidden) and \<open>b\<close> expanded
  (\<^verbatim>\<open>aria-expanded="true"\<close>, its container not hidden). Every element other than \<open>b\<close>
  is expanded afterwards exactly when it was expanded before and is not a controller of
  the widget that passes the validation of the transition: an expanded controller that
  fails validation is not collapsed and stays expanded. So \<open>b\<close> is the only controller of
  the widget that is expanded and passes validation, and the only validly paired
  controller that is expanded: no two validly paired controllers are both expanded.
\<close>

theorem single_open:
  assumes "\<not> allowManyContainers this d"
    and "paired this d a ka" and "paired this d b kb"
    and "unique_container_ids this d" and "unique_controller_ids this d"
    and "isControllerExpanded d a" and "\<not> isControllerExpanded d b"
  shows "\<exists>d'. updateContainerByController this b d = Inr d'
           \<and> getAttribute d' a ''aria-expanded'' = Some ''false'' \<and> hasAttribute d' ka ''hidden''
           \<and> getAttribute d' b ''aria-expanded'' = Some ''true'' \<and> \<not> hasAttribute d' kb ''hidden''
           \<and> (\<forall>x. x \<noteq> b \<longrightarrow>
                 isControllerExpanded d' x
                   = (isControllerExpanded d x
                      \<and> (x \<in> set (controllers this) \<longrightarrow> validated_container this x d = None)))
           \<and> (\<forall>x\<in>set (controllers this).
                 isControllerExpanded d' x \<and> validated_container this x d' \<noteq> None \<longrightarrow> x = b)
           \<and> (\<forall>x k. paired this d' x k \<and> isControllerExpanded d' x \<longrightarrow> x = b)"
proof -
  obtain d' where run: "updateContainerByController this b d = Inr d'"
    using update_total by blast
  have sm: "same_markup d d'" by (rule update_same_markup[OF run])
  have va: "validated_container this a d = Some ka"
    by (rule paired_validated[OF assms(2,4)])
  have vb: "validated_container this b d = Some kb"
    by (rule paired_validated[OF assms(3,4)])
  from assms(6,7) have ab: "a \<noteq> b" by auto
  from assms(2,3) have mem: "a \<in> set (controllers this)" "b \<in> set (controllers this)"
    and lab: "getAttribute d ka ''aria-labelledby'' = Some (element_id d a)"
      "getAttribute d kb ''aria-labelledby'' = Some (element_id d b)"
    by (simp_all add: paired_def)
  have kk: "ka \<noteq> kb"
  proof
    assume "ka = kb"
    with lab have "element_id d a = element_id d b" by simp
    from unique_controller_ids_eq[OF assms(5) mem this] ab show False by simp
  qed
  have a_in: "a \<in> set (others this b d)"
    using assms(1,6) mem(1) ab by (simp add: set_others)
  have at: "attributes d' e n =
           (if e = b \<and> n = ''aria-expanded'' then Some ''true''
            else if e = kb \<and> n = ''hidden'' then None
            else if e = b \<and> n = ''aria-disabled'' \<and> \<not> willToggle this d then Some ''true''
            else collapsed this (others this b d) d e n)" for e n
    unfolding update_attributes[OF run] by (rule toggled_activate[OF vb assms(7)])
  have "getAttribute d' a ''aria-expanded'' = Some ''false''"
    using ab a_in by (simp add: getAttribute_def at collapsed_def va)
  moreover have "hasAttribute d' ka ''hidden''"
    using kk a_in va by (auto simp: hasAttribute_def at collapsed_def list_ex_iff)
  moreover have "getAttribute d' b ''aria-expanded'' = Some ''true''"
    by (simp add: getAttribute_def at)
  moreover have "\<not> hasAttribute d' kb ''hidden''"
    by (simp add: hasAttribute_def at)
  moreover have rest: "isControllerExpanded d' x
                   = (isControllerExpanded d x
                      \<and> (x \<in> set (controllers this) \<longrightarrow> validated_container this x d = None))"
    if xb: "x \<noteq> b" for x
  proof -
    have "attributes d' x ''aria-expanded'' = collapsed this (others this b d) d x ''aria-expanded''"
      using xb by (simp add: at)
    then show ?thesis
      using xb assms(1)
      by (auto simp: expanded_attribute collapsed_def set_others simp del: not_None_eq)
  qed
  moreover have "x = b"
    if "x \<in> set (controllers this)" "isControllerExpanded d' x"
      "validated_container this x d' \<noteq> None" for x
  proof (rule ccontr)
    assume xb: "x \<noteq> b"
    from that(3) have "validated_container this x d \<noteq> None"
      by (simp add: same_markup_validated[OF sm] del: not_None_eq)
    with rest[OF xb] that(1,2) show False by simp
  qed
  moreover have "x = b" if p: "paired this d' x k" and e: "isControllerExpanded d' x" for x k
  proof (rule ccontr)
    assume xb: "x \<noteq> b"
    from p have p0: "paired this d x k" by (simp add: same_markup_paired[OF sm])
    then have vx: "validated_container this x d = Some k"
      by (rule paired_validated[OF _ assms(4)])
    from p0 have xm: "x \<in> set (controllers this)" by (simp add: paired_def)
    from rest[OF xb] e xm vx show False by simp
  qed
  ultimately show ?thesis using run by blast
qed

theorem single_open_witness:
  "\<not> allowManyContainers (two_pairs_widget [1, 2, 5]) (first_open [1, 2, 5])
   \<and> paired (two_pairs_widget [1, 2, 5]) (first_open [1, 2, 5]) 1 3
   \<and> paired (two_pairs_widget [1, 2, 5]) (first_open [1, 2, 5]) 2 4
   \<and> unique_container_ids (two_pairs_widget [1, 2, 5]) (first_open [1, 2, 5])
   \<and> unique_controller_ids (two_pairs_widget [1, 2, 5]) (first_open [1, 2, 5])
   \<and> isControllerExpanded (first_open [1, 2, 5]) 1
   \<and> \<not> isControllerExpanded (first_open [1, 2, 5]) 2
   \<and> isControllerExpanded (first_open [1, 2, 5]) 5
   \<and> validated_container (two_pairs_widget [1, 2, 5]) 5 (first_open [1, 2, 5]) = None
   \<and> (\<exists>d'. updateContainerByController (two_pairs_widget [1, 2, 5]) 2 (first_open [1, 2, 5]) = Inr d'
           \<and> getAttribute d' 1 ''aria-expanded'' = Some ''false'' \<and> hasAttribute d' 3 ''hidden''
           \<and> getAttribute d' 2 ''aria-expanded'' = Some ''true'' \<and> \<not> hasAttribute d' 4 ''hidden''
           \<and> \<not> isControllerExpanded d' 1
           \<and> isControllerExpanded d' 5)"
proof -
  have h1: "\<not> allowManyContainers (two_pairs_widget [1, 2, 5]) (first_open [1, 2, 5])"
    and h2: "paired (two_pairs_widget [1, 2, 5]) (first_open [1, 2, 5]) 1 3"
    and h3: "paired (two_pairs_widget [1, 2, 5]) (first_open [1, 2, 5]) 2 4"
    and h4: "unique_container_ids (two_pairs_widget [1, 2, 5]) (first_open [1, 2, 5])"
    and h5: "unique_controller_ids (two_pairs_widget [1, 2, 5]) (first_open [1, 2, 5])"
    and h6: "isControllerExpanded (first_open [1, 2, 5]) 1"
    and h7: "\<not> isControllerExpanded (first_open [1, 2, 5]) 2"
    and h8: "isControllerExpanded (first_open [1, 2, 5]) 5"
    by (simp_all add: first_open_def page_simps)
  have v5: "validated_container (two_pairs_widget [1, 2, 5]) 5 (first_open [1, 2, 5]) = None"
    and v1: "validated_container (two_pairs_widget [1, 2, 5]) 1 (first_open [1, 2, 5]) = Some 3"
    and m1: "1 \<in> set (controllers (two_pairs_widget [1, 2, 5]))"
    by (simp_all add: validated_container_def getContainerByController_def first_open_def page_simps)
  from single_open [OF h1 h2 h3 h4 h5 h6 h7] obtain d' where
    run: "updateContainerByController (two_pairs_widget [1, 2, 5]) 2 (first_open [1, 2, 5]) = Inr d'"
      "getAttribute d' 1 ''aria-expanded'' = Some ''false''" "hasAttribute d' 3 ''hidden''"
      "getAttribute d' 2 ''aria-expanded'' = Some ''true''" "\<not> hasAttribute d' 4 ''hidden''"
    and rest: "\<forall>x. x \<noteq> 2 \<longrightarrow>
                 isControllerExpanded d' x
                   = (isControllerExpanded (first_open [1, 2, 5]) x
                      \<and> (x \<in> set (controllers (two_pairs_widget [1, 2, 5]))
                           \<longrightarrow> validated_container (two_pairs_widget [1, 2, 5]) x (first_open [1, 2, 5]) = None))"
    by blast
  from rest have "isControllerExpanded d' 5 = (isControllerExpanded (first_open [1, 2, 5]) 5
                      \<and> (5 \<in> set (controllers (two_pairs_widget [1, 2, 5]))
                           \<longrightarrow> validated_container (two_pairs_widget [1, 2, 5]) 5 (first_open [1, 2, 5]) = None))"
    by simp
  with h8 v5 have e5: "isControllerExpanded d' 5" by simp
  from rest have "isControllerExpanded d' 1 = (isControllerExpanded (first_open [1, 2, 5]) 1
                      \<and> (1 \<in> set (controllers (two_pairs_widget [1, 2, 5]))
                           \<longrightarrow> validated_container (two_pairs_widget [1, 2, 5]) 1 (first_open [1, 2, 5]) = None))"
    by simp
  with v1 m1 have e1: "\<not> isControllerExpanded d' 1" by simp
  from run e1 e5 show ?thesis
    using h1 h2 h3 h4 h5 h6 h7 h8 v5 by simp
qed

text \<open>
  The claim as stated fails: the widget has no many-containers attribute, buttons 1 and 2
  are validly paired, 1 expanded and 2 collapsed; button 5 is marked expanded and its
  \<^verbatim>\<open>aria-controls\<close> names no section. After the toggle on 2, the controllers 2 and 5
  are both expanded: 5 fails \<^verbatim>\<open>isController\<close>, so it is not deactivated.
\<close>

theorem single_open_counterexample:
  "\<not> allowManyContainers (two_pairs_widget [1, 2, 5]) (first_open [1, 2, 5])
   \<and> paired (two_pairs_widget [1, 2, 5]) (first_open [1, 2, 5]) 1 3
   \<and> paired (two_pairs_widget [1, 2, 5]) (first_open [1, 2, 5]) 2 4
   \<and> isControllerExpanded (first_open [1, 2, 5]) 1
   \<and> \<not> isControllerExpanded (first_open [1, 2, 5]) 2
   \<and> controllers (two_pairs_widget [1, 2, 5]) = [1, 2, 5]
   \<and> \<not> isl (updateContainerByController (two_pairs_widget [1, 2, 5]) 2 (first_open [1, 2, 5]))
   \<and> isControllerExpanded
        (projr (updateContainerByController (two_pairs_widget [1, 2, 5]) 2 (first_open [1, 2, 5]))) 2
   \<and> isControllerExpanded
        (projr (updateContainerByController (two_pairs_widget [1, 2, 5]) 2 (first_open [1, 2, 5]))) 5"
  by (simp add: first_open_def run_simps page_simps)

section \<open>A controller that names no container\<close>

text \<open>
  C2, as the code has it. Let \<open>c\<close> be a controller whose \<^verbatim>\<open>aria-controls\<close> is the id of no
  container of the widget. The toggle operation on \<open>c\<close> returns normally, and:
  \<^item> when many containers are allowed, no attribute of any element changes;
  \<^item> otherwise every other controller of the widget that is expanded and passes
    validation is collapsed before \<open>c\<close> is looked at: afterwards its \<^verbatim>\<open>aria-expanded\<close>
    is "false", its container has \<^verbatim>\<open>hidden=""\<close>, and its \<^verbatim>\<open>aria-disabled\<close> is removed
    when toggling-closed is not allowed;
  \<^item> the attributes of these controllers (\<^verbatim>\<open>aria-expanded\<close>, \<^verbatim>\<open>aria-disabled\<close>) and
    of their containers (\<^verbatim>\<open>hidden\<close>) are the only ones that can change;
  \<^item> \<^verbatim>\<open>aria-expanded\<close> and \<^verbatim>\<open>aria-disabled\<close> of \<open>c\<close> itself do not change;
  \<^item> the validation failure of \<open>c\<close> is reported on the console exactly when \<open>c\<close> is not
    expanded or toggling-closed is allowed (an expanded \<open>c\<close> that may not be closed is
    never validated).
\<close>

theorem toggle_unknown_container:
  assumes "\<not> list_ex (\<lambda>k. Some (element_id d k) = getAttribute d c ''aria-controls'') (containers this)"
  shows "\<exists>d'. updateContainerByController this c d = Inr d'
           \<and> (allowManyContainers this d \<longrightarrow> attributes d' = attributes d)
           \<and> (\<forall>y\<in>set (controllers this). \<forall>k.
                 y \<noteq> c \<and> \<not> allowManyContainers this d \<and> isControllerExpanded d y
                 \<and> validated_container this y d = Some k \<longrightarrow>
                   getAttribute d' y ''aria-expanded'' = Some ''false''
                   \<and> getAttribute d' k ''hidden'' = Some []
                   \<and> (\<not> willToggle this d \<longrightarrow> getAttribute d' y ''aria-disabled'' = None))
           \<and> (\<forall>e n. attributes d' e n \<noteq> attributes d e n \<longrightarrow>
                 (\<exists>y\<in>set (controllers this). y \<noteq> c \<and> isControllerExpanded d y
                    \<and> validated_container this y d \<noteq> None
                    \<and> ((e = y \<and> (n = ''aria-expanded'' \<or> n = ''aria-disabled''))
                        \<or> (validated_container this y d = Some e \<and> n = ''hidden''))))
           \<and> getAttribute d' c ''aria-expanded'' = getAttribute d c ''aria-expanded''
           \<and> getAttribute d' c ''aria-disabled'' = getAttribute d c ''aria-disabled''
           \<and> (ControllerMismatch c \<in> set (drop (length (console d)) (console d'))
                \<longleftrightarrow> \<not> isControllerExpanded d c \<or> willToggle this d)"
proof -
  obtain d' where run: "updateContainerByController this c d = Inr d'"
    using update_total by blast
  note inv = unknown_container_invalid[OF assms]
  have at: "attributes d' = collapsed this (others this c d) d"
    unfolding update_attributes[OF run] by (rule toggled_invalid[OF inv(1)])
  have many: "attributes d' = attributes d" if "allowManyContainers this d"
    using that by (simp add: at others_def collapsed_Nil)
  have collapse: "getAttribute d' y ''aria-expanded'' = Some ''false''
                   \<and> getAttribute d' k ''hidden'' = Some []
                   \<and> (\<not> willToggle this d \<longrightarrow> getAttribute d' y ''aria-disabled'' = None)"
    if "y \<in> set (controllers this)" "y \<noteq> c" "\<not> allowManyContainers this d"
      "isControllerExpanded d y" "validated_container this y d = Some k" for y k
  proof -
    from that have y_in: "y \<in> set (others this c d)" by (simp add: set_others)
    with that(5) show ?thesis
      by (auto simp: getAttribute_def at collapsed_def list_ex_iff)
  qed
  have changes: "\<exists>y\<in>set (controllers this). y \<noteq> c \<and> isControllerExpanded d y
                    \<and> validated_container this y d \<noteq> None
                    \<and> ((e = y \<and> (n = ''aria-expanded'' \<or> n = ''aria-disabled''))
                        \<or> (validated_container this y d = Some e \<and> n = ''hidden''))"
    if "attributes d' e n \<noteq> attributes d e n" for e n
  proof -
    from that have "collapsed this (others this c d) d e n \<noteq> attributes d e n" by (simp add: at)
    from collapsed_changes[OF this] obtain y where
      y: "y \<in> set (others this c d)" "validated_container this y d \<noteq> None"
        "(e = y \<and> (n = ''aria-expanded'' \<or> n = ''aria-disabled''))
               \<or> (validated_container this y d = Some e \<and> n = ''hidden'')"
      by blast
    from y(1) have "y \<in> set (controllers this)" "y \<noteq> c" "isControllerExpanded d y"
      by (auto simp: set_others split: if_splits)
    with y(2,3) show ?thesis by blast
  qed
  have own: "getAttribute d' c ''aria-expanded'' = getAttribute d c ''aria-expanded''"
    "getAttribute d' c ''aria-disabled'' = getAttribute d c ''aria-disabled''"
    by (simp_all add: getAttribute_def at collapsed_frame others_not_self)
  have log: "drop (length (console d)) (console d') =
      concat (map (\<lambda>y. validation_report this y d) (others this c d))
            @ (if \<not> isControllerExpanded d c \<or> willToggle this d then [ControllerMismatch c] else [])"
    by (simp add: update_console[OF run] inv(2))
  have quiet: "ControllerMismatch c \<notin> set (concat (map (\<lambda>y. validation_report this y d) (others this c d)))"
    using others_not_self[of c this d] by (auto dest: validation_report_entries)
  have report: "ControllerMismatch c \<in> set (drop (length (console d)) (console d'))
                \<longleftrightarrow> \<not> isControllerExpanded d c \<or> willToggle this d"
    unfolding log using quiet by auto
  from run many collapse changes own report show ?thesis by blast
qed

theorem toggle_unknown_container_witness:
  "\<not> list_ex (\<lambda>k. Some (element_id (first_open [1, 2, 6]) k)
                    = getAttribute (first_open [1, 2, 6]) 6 ''aria-controls'')
        (containers (two_pairs_widget [1, 2, 6]))
   \<and> 1 \<in> set (controllers (two_pairs_widget [1, 2, 6]))
   \<and> \<not> allowManyContainers (two_pairs_widget [1, 2, 6]) (first_open [1, 2, 6])
   \<and> \<not> willToggle (two_pairs_widget [1, 2, 6]) (first_open [1, 2, 6])
   \<and> isControllerExpanded (first_open [1, 2, 6]) 1
   \<and> validated_container (two_pairs_widget [1, 2, 6]) 1 (first_open [1, 2, 6]) = Some 3
   \<and> (\<exists>d'. updateContainerByController (two_pairs_widget [1, 2, 6]) 6 (first_open [1, 2, 6]) = Inr d'
         \<and> getAttribute d' 1 ''aria-expanded'' = Some ''false''
         \<and> getAttribute d' 3 ''hidden'' = Some []
         \<and> getAttribute d' 1 ''aria-disabled'' = None
         \<and> getAttribute d' 6 ''aria-expanded'' = None
         \<and> getAttribute d' 6 ''aria-disabled'' = None
         \<and> ControllerMismatch 6 \<in> set (console d'))"
proof -
  have h: "\<not> list_ex (\<lambda>k. Some (element_id (first_open [1, 2, 6]) k)
                    = getAttribute (first_open [1, 2, 6]) 6 ''aria-controls'')
        (containers (two_pairs_widget [1, 2, 6]))"
    by (simp add: first_open_def page_simps)
  have before: "getAttribute (first_open [1, 2, 6]) 6 ''aria-expanded'' = None"
    "getAttribute (first_open [1, 2, 6]) 6 ''aria-disabled'' = None"
    "\<not> isControllerExpanded (first_open [1, 2, 6]) 6"
    by (simp_all add: first_open_def page_simps)
  have other: "1 \<in> set (controllers (two_pairs_widget [1, 2, 6]))"
    "\<not> allowManyContainers (two_pairs_widget [1, 2, 6]) (first_open [1, 2, 6])"
    "\<not> willToggle (two_pairs_widget [1, 2, 6]) (first_open [1, 2, 6])"
    "isControllerExpanded (first_open [1, 2, 6]) 1"
    "validated_container (two_pairs_widget [1, 2, 6]) 1 (first_open [1, 2, 6]) = Some 3"
    by (simp_all add: validated_container_def getContainerByController_def first_open_def page_simps)
  from toggle_unknown_container [OF h] obtain d' where
    run: "updateContainerByController (two_pairs_widget [1, 2, 6]) 6 (first_open [1, 2, 6]) = Inr d'"
    and col: "\<forall>y\<in>set (controllers (two_pairs_widget [1, 2, 6])). \<forall>k.
                 y \<noteq> 6 \<and> \<not> allowManyContainers (two_pairs_widget [1, 2, 6]) (first_open [1, 2, 6])
                 \<and> isControllerExpanded (first_open [1, 2, 6]) y
                 \<and> validated_container (two_pairs_widget [1, 2, 6]) y (first_open [1, 2, 6]) = Some k \<longrightarrow>
                   getAttribute d' y ''aria-expanded'' = Some ''false''
                   \<and> getAttribute d' k ''hidden'' = Some []
                   \<and> (\<not> willToggle (two_pairs_widget [1, 2, 6]) (first_open [1, 2, 6])
                        \<longrightarrow> getAttribute d' y ''aria-disabled'' = None)"
    and own: "getAttribute d' 6 ''aria-expanded'' = getAttribute (first_open [1, 2, 6]) 6 ''aria-expanded''"
      "getAttribute d' 6 ''aria-disabled'' = getAttribute (first_open [1, 2, 6]) 6 ''aria-disabled''"
    and log: "ControllerMismatch 6 \<in> set (drop (length (console (first_open [1, 2, 6]))) (console d'))
       \<longleftrightarrow> \<not> isControllerExpanded (first_open [1, 2, 6]) 6
           \<or> willToggle (two_pairs_widget [1, 2, 6]) (first_open [1, 2, 6])"
    by blast
  from col other have c1: "getAttribute d' 1 ''aria-expanded'' = Some ''false''
                   \<and> getAttribute d' 3 ''hidden'' = Some []
                   \<and> getAttribute d' 1 ''aria-disabled'' = None"
    by (auto simp del: not_None_eq)
  from log before(3) have "ControllerMismatch 6 \<in> set (console d')"
    by (auto dest: in_set_dropD)
  with run c1 own show ?thesis
    using h before other by simp
qed

text \<open>
  The claim as stated fails twice on one input. Button 5 names no section; it is marked
  expanded, and neither flag is on the root. The toggle on 5 collapses the open, valid
  button 1 (its \<^verbatim>\<open>aria-expanded\<close> goes from "true" to "false" and its section is hidden),
  and nothing is written to the console.
\<close>

theorem toggle_unknown_container_counterexample:
  "\<not> list_ex (\<lambda>k. Some (element_id (first_open [1, 2, 5]) k)
                    = getAttribute (first_open [1, 2, 5]) 5 ''aria-controls'')
        (containers (two_pairs_widget [1, 2, 5]))
   \<and> \<not> isl (updateContainerByController (two_pairs_widget [1, 2, 5]) 5 (first_open [1, 2, 5]))
   \<and> getAttribute (first_open [1, 2, 5]) 1 ''aria-expanded'' = Some ''true''
   \<and> getAttribute
        (projr (updateContainerByController (two_pairs_widget [1, 2, 5]) 5 (first_open [1, 2, 5])))
        1 ''aria-expanded'' = Some ''false''
   \<and> \<not> hasAttribute (first_open [1, 2, 5]) 3 ''hidden''
   \<and> hasAttribute
        (projr (updateContainerByController (two_pairs_widget [1, 2, 5]) 5 (first_open [1, 2, 5])))
        3 ''hidden''
   \<and> console
        (projr (updateContainerByController (two_pairs_widget [1, 2, 5]) 5 (first_open [1, 2, 5])))
      = console (first_open [1, 2, 5])"
  by (simp add: first_open_def run_simps page_simps)

section \<open>What a toggle leaves alone\<close>

text \<open>
  C10, as the code has it. The toggle operation on any element \<open>c\<close> returns normally and
  changes nothing but \<^verbatim>\<open>aria-expanded\<close> and \<^verbatim>\<open>aria-disabled\<close> on \<open>c\<close> itself and on
  elements of the controllers sequence, and \<^verbatim>\<open>hidden\<close> on elements of the containers
  sequence. Ids, \<^verbatim>\<open>aria-controls\<close> and \<^verbatim>\<open>aria-labelledby\<close> of every element are
  unchanged, as are listeners, focus and the answers to selector queries; the root's
  attributes are unchanged when the root is neither \<open>c\<close> nor among the controllers or
  containers (they are its descendants). What is written on \<open>c\<close> does not depend on \<open>c\<close>
  being in the controllers sequence: a collapsed \<open>c\<close> that passes validation gets
  \<^verbatim>\<open>aria-expanded="true"\<close>, and \<^verbatim>\<open>aria-disabled="true"\<close> when toggling-closed is not
  allowed (its \<^verbatim>\<open>aria-disabled\<close> is left as it was when toggling-closed is allowed); on
  a \<open>c\<close> that fails validation neither attribute changes. The operation takes the widget
  and the document and returns a document only: the two sequences are not assigned to.
\<close>

theorem toggle_frame:
  "\<exists>d'. updateContainerByController this c d = Inr d' \<and> same_environment d d'
           \<and> (\<forall>e n. attributes d' e n \<noteq> attributes d e n \<longrightarrow>
                 ((e = c \<or> e \<in> set (controllers this))
                    \<and> (n = ''aria-expanded'' \<or> n = ''aria-disabled''))
                 \<or> (e \<in> set (containers this) \<and> n = ''hidden''))
           \<and> (\<forall>e. element_id d' e = element_id d e
                 \<and> getAttribute d' e ''aria-controls'' = getAttribute d e ''aria-controls''
                 \<and> getAttribute d' e ''aria-labelledby'' = getAttribute d e ''aria-labelledby'')
           \<and> (root this \<noteq> c \<and> root this \<notin> set (controllers this) \<union> set (containers this)
                 \<longrightarrow> attributes d' (root this) = attributes d (root this))
           \<and> (\<not> isControllerExpanded d c \<and> validated_container this c d \<noteq> None
                 \<longrightarrow> getAttribute d' c ''aria-expanded'' = Some ''true''
                     \<and> getAttribute d' c ''aria-disabled''
                          = (if willToggle this d then getAttribute d c ''aria-disabled''
                             else Some ''true''))
           \<and> (validated_container this c d = None
                 \<longrightarrow> getAttribute d' c ''aria-expanded'' = getAttribute d c ''aria-expanded''
                     \<and> getAttribute d' c ''aria-disabled'' = getAttribute d c ''aria-disabled'')"
proof -
  obtain d' where run: "updateContainerByController this c d = Inr d'"
    using update_total by blast
  have sm: "same_markup d d'" by (rule update_same_markup[OF run])
  have env: "same_environment d d'" by (rule update_same_environment[OF run])
  have at: "attributes d' = toggled this c d" by (rule update_attributes[OF run])
  have frame: "\<forall>e n. attributes d' e n \<noteq> attributes d e n \<longrightarrow>
                 ((e = c \<or> e \<in> set (controllers this))
                    \<and> (n = ''aria-expanded'' \<or> n = ''aria-disabled''))
                 \<or> (e \<in> set (containers this) \<and> n = ''hidden'')"
  proof (intro allI impI)
    fix e n
    assume "attributes d' e n \<noteq> attributes d e n"
    then have "toggled this c d e n \<noteq> attributes d e n" by (simp add: at)
    from toggled_changes[OF this] others_subset[of this c d]
    show "((e = c \<or> e \<in> set (controllers this))
                    \<and> (n = ''aria-expanded'' \<or> n = ''aria-disabled''))
                 \<or> (e \<in> set (containers this) \<and> n = ''hidden'')"
      by auto
  qed
  have ids: "\<forall>e. element_id d' e = element_id d e
                 \<and> getAttribute d' e ''aria-controls'' = getAttribute d e ''aria-controls''
                 \<and> getAttribute d' e ''aria-labelledby'' = getAttribute d e ''aria-labelledby''"
    by (simp add: same_markup_reads(1-3)[OF sm])
  have rt: "root this \<noteq> c \<and> root this \<notin> set (controllers this) \<union> set (containers this)
                 \<longrightarrow> attributes d' (root this) = attributes d (root this)"
  proof
    assume r: "root this \<noteq> c \<and> root this \<notin> set (controllers this) \<union> set (containers this)"
    show "attributes d' (root this) = attributes d (root this)"
    proof (rule ext)
      fix n
      from frame r show "attributes d' (root this) n = attributes d (root this) n"
        by (metis UnCI)
    qed
  qed
  have opened: "\<not> isControllerExpanded d c \<and> validated_container this c d \<noteq> None
                 \<longrightarrow> getAttribute d' c ''aria-expanded'' = Some ''true''
                     \<and> getAttribute d' c ''aria-disabled''
                          = (if willToggle this d then getAttribute d c ''aria-disabled''
                             else Some ''true'')"
  proof
    assume h: "\<not> isControllerExpanded d c \<and> validated_container this c d \<noteq> None"
    then obtain k where vc: "validated_container this c d = Some k" by auto
    from h have col: "\<not> isControllerExpanded d c" by simp
    show "getAttribute d' c ''aria-expanded'' = Some ''true''
                     \<and> getAttribute d' c ''aria-disabled''
                          = (if willToggle this d then getAttribute d c ''aria-disabled''
                             else Some ''true'')"
      by (simp add: getAttribute_def at toggled_activate[OF vc col] collapsed_frame
          others_not_self)
  qed
  have rejected: "validated_container this c d = None
                 \<longrightarrow> getAttribute d' c ''aria-expanded'' = getAttribute d c ''aria-expanded''
                     \<and> getAttribute d' c ''aria-disabled'' = getAttribute d c ''aria-disabled''"
    by (simp add: getAttribute_def at toggled_invalid collapsed_frame others_not_self)
  show ?thesis
    by (intro exI[of _ d'] conjI) (fact run env frame ids rt opened rejected)+
qed

theorem toggle_frame_witness:
  "9 \<notin> set (controllers (two_pairs_widget [1, 2]))
   \<and> root (two_pairs_widget [1, 2]) \<noteq> 9
   \<and> root (two_pairs_widget [1, 2])
        \<notin> set (controllers (two_pairs_widget [1, 2])) \<union> set (containers (two_pairs_widget [1, 2]))
   \<and> \<not> isControllerExpanded both_collapsed 9
   \<and> validated_container (two_pairs_widget [1, 2]) 9 both_collapsed \<noteq> None
   \<and> \<not> willToggle (two_pairs_widget [1, 2]) both_collapsed
   \<and> (\<exists>d'. updateContainerByController (two_pairs_widget [1, 2]) 9 both_collapsed = Inr d'
         \<and> same_environment both_collapsed d'
         \<and> element_id d' 9 = ''X''
         \<and> getAttribute d' 9 ''aria-controls'' = Some ''K1''
         \<and> getAttribute d' 3 ''aria-labelledby'' = Some ''C1''
         \<and> attributes d' 0 = attributes both_collapsed 0
         \<and> getAttribute d' 9 ''aria-expanded'' = Some ''true''
         \<and> getAttribute d' 9 ''aria-disabled'' = Some ''true'')
   \<and> validated_container (two_pairs_widget [1, 2, 6]) 6 (first_open [1, 2, 6]) = None
   \<and> (\<exists>d'. updateContainerByController (two_pairs_widget [1, 2, 6]) 6 (first_open [1, 2, 6]) = Inr d'
         \<and> getAttribute d' 6 ''aria-expanded'' = None
         \<and> getAttribute d' 6 ''aria-disabled'' = None)"
proof -
  have h: "9 \<notin> set (controllers (two_pairs_widget [1, 2]))"
    and r: "root (two_pairs_widget [1, 2]) \<noteq> 9
       \<and> root (two_pairs_widget [1, 2])
        \<notin> set (controllers (two_pairs_widget [1, 2])) \<union> set (containers (two_pairs_widget [1, 2]))"
    and r0: "root (two_pairs_widget [1, 2]) = 0"
    by (simp_all add: two_pairs_widget_def)
  have before: "element_id both_collapsed 9 = ''X''"
    "getAttribute both_collapsed 9 ''aria-controls'' = Some ''K1''"
    "getAttribute both_collapsed 3 ''aria-labelledby'' = Some ''C1''"
    "\<not> isControllerExpanded both_collapsed 9"
    "\<not> willToggle (two_pairs_widget [1, 2]) both_collapsed"
    by (simp_all add: both_collapsed_def page_simps)
  have v9: "validated_container (two_pairs_widget [1, 2]) 9 both_collapsed \<noteq> None"
    by (simp add: validated_container_def getContainerByController_def both_collapsed_def
        page_simps)
  have v6: "validated_container (two_pairs_widget [1, 2, 6]) 6 (first_open [1, 2, 6]) = None"
    and b6: "getAttribute (first_open [1, 2, 6]) 6 ''aria-expanded'' = None"
      "getAttribute (first_open [1, 2, 6]) 6 ''aria-disabled'' = None"
    by (simp_all add: validated_container_def getContainerByController_def first_open_def
        page_simps)
  from toggle_frame [of "two_pairs_widget [1, 2]" 9 both_collapsed] obtain d' where
    run: "updateContainerByController (two_pairs_widget [1, 2]) 9 both_collapsed = Inr d'"
      "same_environment both_collapsed d'"
    and ids: "\<forall>e. element_id d' e = element_id both_collapsed e
        \<and> getAttribute d' e ''aria-controls'' = getAttribute both_collapsed e ''aria-controls''
        \<and> getAttribute d' e ''aria-labelledby'' = getAttribute both_collapsed e ''aria-labelledby''"
    and rt: "root (two_pairs_widget [1, 2]) \<noteq> 9
       \<and> root (two_pairs_widget [1, 2])
        \<notin> set (controllers (two_pairs_widget [1, 2])) \<union> set (containers (two_pairs_widget [1, 2]))
       \<longrightarrow> attributes d' (root (two_pairs_widget [1, 2]))
           = attributes both_collapsed (root (two_pairs_widget [1, 2]))"
    and opened: "\<not> isControllerExpanded both_collapsed 9
         \<and> validated_container (two_pairs_widget [1, 2]) 9 both_collapsed \<noteq> None
                 \<longrightarrow> getAttribute d' 9 ''aria-expanded'' = Some ''true''
                     \<and> getAttribute d' 9 ''aria-disabled''
                          = (if willToggle (two_pairs_widget [1, 2]) both_collapsed
                             then getAttribute both_collapsed 9 ''aria-disabled''
                             else Some ''true'')"
    by (elim exE conjE) (rule that; assumption)
  from opened before(4,5) v9 have o9: "getAttribute d' 9 ''aria-expanded'' = Some ''true''"
    "getAttribute d' 9 ''aria-disabled'' = Some ''true''"
    by (simp_all del: not_None_eq)
  from rt r r0 have root0: "attributes d' 0 = attributes both_collapsed 0" by simp
  have first: "\<exists>d'. updateContainerByController (two_pairs_widget [1, 2]) 9 both_collapsed = Inr d'
         \<and> same_environment both_collapsed d'
         \<and> element_id d' 9 = ''X''
         \<and> getAttribute d' 9 ''aria-controls'' = Some ''K1''
         \<and> getAttribute d' 3 ''aria-labelledby'' = Some ''C1''
         \<and> attributes d' 0 = attributes both_collapsed 0
         \<and> getAttribute d' 9 ''aria-expanded'' = Some ''true''
         \<and> getAttribute d' 9 ''aria-disabled'' = Some ''true''"
    using run ids before(1-3) root0 o9 by (intro exI[of _ d']) simp
  from toggle_frame [of "two_pairs_widget [1, 2, 6]" 6 "first_open [1, 2, 6]"] obtain d'' where
    run6: "updateContainerByController (two_pairs_widget [1, 2, 6]) 6 (first_open [1, 2, 6]) = Inr d''"
    and rej: "validated_container (two_pairs_widget [1, 2, 6]) 6 (first_open [1, 2, 6]) = None
                 \<longrightarrow> getAttribute d'' 6 ''aria-expanded'' = getAttribute (first_open [1, 2, 6]) 6 ''aria-expanded''
                     \<and> getAttribute d'' 6 ''aria-disabled'' = getAttribute (first_open [1, 2, 6]) 6 ''aria-disabled''"
    by (elim exE conjE) (rule that; assumption)
  from rej v6 b6 run6 have second:
    "\<exists>d'. updateContainerByController (two_pairs_widget [1, 2, 6]) 6 (first_open [1, 2, 6]) = Inr d'
         \<and> getAttribute d' 6 ''aria-expanded'' = None
         \<and> getAttribute d' 6 ''aria-disabled'' = None"
    by simp
  show ?thesis
    by (intro conjI) (fact h r[THEN conjunct1] r[THEN conjunct2] before(4,5) v9 v6 first second)+
qed

text \<open>
  The claim as stated fails: \<^verbatim>\<open>updateContainerByController\<close> is public, and
  \<^verbatim>\<open>isController\<close> only tests that \<^verbatim>\<open>aria-controls\<close> names a container. Element 9 is
  not among the widget's controllers and names section K1; the toggle on it sets
  \<^verbatim>\<open>aria-expanded="true"\<close> and \<^verbatim>\<open>aria-disabled="true"\<close> on element 9.
\<close>

theorem toggle_frame_counterexample:
  "9 \<notin> set (controllers (two_pairs_widget [1, 2]))
   \<and> \<not> isl (updateContainerByController (two_pairs_widget [1, 2]) 9 both_collapsed)
   \<and> getAttribute both_collapsed 9 ''aria-expanded'' = None
   \<and> getAttribute (projr (updateContainerByController (two_pairs_widget [1, 2]) 9 both_collapsed))
        9 ''aria-expanded'' = Some ''true''
   \<and> getAttribute both_collapsed 9 ''aria-disabled'' = None
   \<and> getAttribute (projr (updateContainerByController (two_pairs_widget [1, 2]) 9 both_collapsed))
        9 ''aria-disabled'' = Some ''true''"
  by (simp add: both_collapsed_def run_simps page_simps)

section \<open>Visible exactly when expanded\<close>

text \<open>
  C4, as the code has it. Let the constructor return a widget on a page with unique
  container ids, and let \<open>c\<close> and \<open>k\<close> be a valid pair of it such that no other controller
  of the widget names \<open>k\<close>, and such that the markup gives \<open>c\<close> no \<^verbatim>\<open>aria-expanded\<close> or
  the value "false" (or already has \<open>k\<close> visible exactly when \<open>c\<close> is expanded). Then in
  the state after construction, and in every state reached from it by toggle operations
  on controllers of the widget, the pair is still valid and \<open>k\<close> lacks \<^verbatim>\<open>hidden\<close> exactly
  when \<^verbatim>\<open>aria-expanded\<close> of \<open>c\<close> is "true". Initialisation does not establish this for a
  controller that the markup marks expanded while its container is hidden.
\<close>

theorem visible_iff_expanded_after_construction:
  assumes "new_Accordion r d = Inr (this, d0)"
    and "paired this d c k" and "unique_container_ids this d" and "sole_controller this d c k"
    and "(\<not> hasAttribute d c ''aria-expanded'' \<or> getAttribute d c ''aria-expanded'' = Some ''false'')
         \<or> (\<not> hasAttribute d k ''hidden'') = isControllerExpanded d c"
    and "set cs \<subseteq> set (controllers this)"
  shows "\<exists>d'. toggles this cs d0 = Inr d' \<and> paired this d' c k
           \<and> (\<not> hasAttribute d' k ''hidden'') = isControllerExpanded d' c"
proof -
  let ?ys = "filter (\<lambda>controller. \<not> hasAttribute d controller ''aria-expanded''
                            \<or> getAttribute d controller ''aria-expanded'' = Some ''false'')
                (controllers this)"
  note init = new_Accordion_Inr(1)[OF assms(1)]
  have sm: "same_markup d d0" by (rule initialize_same_markup[OF init])
  have vc: "validated_container this c d = Some k"
    by (rule paired_validated[OF assms(2,3)])
  from assms(2) have cm: "c \<in> set (controllers this)" by (simp add: paired_def)
  have cp: "attributes d0 k ''hidden'' = (if c \<in> set ?ys then Some [] else attributes d k ''hidden'')"
    "attributes d0 c ''aria-expanded''
       = (if c \<in> set ?ys then Some ''false'' else attributes d c ''aria-expanded'')"
    unfolding initialize_attributes[OF init]
    by (rule collapsed_pair[OF vc assms(4)]; simp)+
  have start: "(\<not> hasAttribute d0 k ''hidden'') = isControllerExpanded d0 c"
  proof (cases "c \<in> set ?ys")
    case True
    then show ?thesis by (simp add: hasAttribute_def expanded_attribute cp)
  next
    case False
    with cm have "\<not> (\<not> hasAttribute d c ''aria-expanded'' \<or> getAttribute d c ''aria-expanded'' = Some ''false'')"
      by simp
    with assms(5) have inv: "(\<not> hasAttribute d k ''hidden'') = isControllerExpanded d c" by blast
    have same: "attributes d0 k ''hidden'' = attributes d k ''hidden''"
      "attributes d0 c ''aria-expanded'' = attributes d c ''aria-expanded''"
      by (simp_all only: cp False if_False)
    from inv show ?thesis by (simp add: hasAttribute_def expanded_attribute same)
  qed
  have 2: "paired this d0 c k" "unique_container_ids this d0" "sole_controller this d0 c k"
    using assms(2-4)
    by (simp_all add: same_markup_paired[OF sm] same_markup_unique[OF sm] same_markup_sole[OF sm])
  show ?thesis by (rule toggles_preserve_pair[OF 2 assms(6) start])
qed

theorem visible_iff_expanded_after_construction_witness:
  "new_Accordion None markup_open_but_hidden
     = Inr (two_pairs_widget [1, 2], snd (projr (new_Accordion None markup_open_but_hidden)))
   \<and> paired (two_pairs_widget [1, 2]) markup_open_but_hidden 2 4
   \<and> unique_container_ids (two_pairs_widget [1, 2]) markup_open_but_hidden
   \<and> sole_controller (two_pairs_widget [1, 2]) markup_open_but_hidden 2 4
   \<and> \<not> hasAttribute markup_open_but_hidden 2 ''aria-expanded''
   \<and> \<not> hasAttribute markup_open_but_hidden 4 ''hidden''
   \<and> set [1, 2] \<subseteq> set (controllers (two_pairs_widget [1, 2]))
   \<and> (\<exists>d'. toggles (two_pairs_widget [1, 2]) [1, 2]
              (snd (projr (new_Accordion None markup_open_but_hidden))) = Inr d'
         \<and> paired (two_pairs_widget [1, 2]) d' 2 4
         \<and> (\<not> hasAttribute d' 4 ''hidden'') = isControllerExpanded d' 2
         \<and> isControllerExpanded d' 2)
   \<and> hasAttribute (snd (projr (new_Accordion None markup_open_but_hidden))) 4 ''hidden''
   \<and> \<not> isControllerExpanded (snd (projr (new_Accordion None markup_open_but_hidden))) 2"
proof -
  have h1: "new_Accordion None markup_open_but_hidden
     = Inr (two_pairs_widget [1, 2], snd (projr (new_Accordion None markup_open_but_hidden)))"
    by (simp add: markup_open_but_hidden_def construct_simps run_simps page_simps)
  have h2: "paired (two_pairs_widget [1, 2]) markup_open_but_hidden 2 4"
    and h3: "unique_container_ids (two_pairs_widget [1, 2]) markup_open_but_hidden"
    and h4: "sole_controller (two_pairs_widget [1, 2]) markup_open_but_hidden 2 4"
    and h5: "\<not> hasAttribute markup_open_but_hidden 2 ''aria-expanded''"
    and h5': "\<not> hasAttribute markup_open_but_hidden 4 ''hidden''"
    and h6: "set [1, 2] \<subseteq> set (controllers (two_pairs_widget [1, 2]))"
    by (simp_all add: sole_controller_def markup_open_but_hidden_def page_simps)
  from h5 have h5d: "(\<not> hasAttribute markup_open_but_hidden 2 ''aria-expanded''
            \<or> getAttribute markup_open_but_hidden 2 ''aria-expanded'' = Some ''false'')
         \<or> (\<not> hasAttribute markup_open_but_hidden 4 ''hidden'')
             = isControllerExpanded markup_open_but_hidden 2"
    by simp
  have start: "hasAttribute (snd (projr (new_Accordion None markup_open_but_hidden))) 4 ''hidden''"
    "\<not> isControllerExpanded (snd (projr (new_Accordion None markup_open_but_hidden))) 2"
    by (simp_all add: markup_open_but_hidden_def construct_simps run_simps page_simps)
  have after: "isControllerExpanded
        (projr (toggles (two_pairs_widget [1, 2]) [1, 2]
                  (snd (projr (new_Accordion None markup_open_but_hidden))))) 2"
    by (simp add: markup_open_but_hidden_def construct_simps run_simps page_simps)
  from visible_iff_expanded_after_construction [OF h1 h2 h3 h4 h5d h6] obtain d' where
    run: "toggles (two_pairs_widget [1, 2]) [1, 2]
              (snd (projr (new_Accordion None markup_open_but_hidden))) = Inr d'"
      "paired (two_pairs_widget [1, 2]) d' 2 4"
      "(\<not> hasAttribute d' 4 ''hidden'') = isControllerExpanded d' 2"
    by blast
  from after run(1) have "isControllerExpanded d' 2" by simp
  with run have last: "\<exists>d'. toggles (two_pairs_widget [1, 2]) [1, 2]
              (snd (projr (new_Accordion None markup_open_but_hidden))) = Inr d'
         \<and> paired (two_pairs_widget [1, 2]) d' 2 4
         \<and> (\<not> hasAttribute d' 4 ''hidden'') = isControllerExpanded d' 2
         \<and> isControllerExpanded d' 2"
    by simp
  show ?thesis
    by (intro conjI) (fact h1 h2 h3 h4 h5 h5' h6 last start)+
qed

text \<open>
  The claim as stated fails. The markup marks button 1 expanded while its section 3 is
  hidden. Construction succeeds and leaves that pair alone (only buttons without
  \<^verbatim>\<open>aria-expanded\<close>, or with "false", are deactivated); a click on button 1 then changes
  nothing, as toggling-closed is not allowed. In the state after construction and in the
  state after the click, the pair is valid, the controller is expanded and the container
  is hidden.
\<close>

theorem visible_iff_expanded_counterexample:
  "\<not> isl (new_Accordion None markup_open_but_hidden)
   \<and> fst (projr (new_Accordion None markup_open_but_hidden)) = two_pairs_widget [1, 2]
   \<and> paired (two_pairs_widget [1, 2]) (snd (projr (new_Accordion None markup_open_but_hidden))) 1 3
   \<and> isControllerExpanded (snd (projr (new_Accordion None markup_open_but_hidden))) 1
   \<and> hasAttribute (snd (projr (new_Accordion None markup_open_but_hidden))) 3 ''hidden''
   \<and> \<not> isl (toggles (two_pairs_widget [1, 2]) [1]
              (snd (projr (new_Accordion None markup_open_but_hidden))))
   \<and> paired (two_pairs_widget [1, 2])
        (projr (toggles (two_pairs_widget [1, 2]) [1]
                  (snd (projr (new_Accordion None markup_open_but_hidden))))) 1 3
   \<and> isControllerExpanded
        (projr (toggles (two_pairs_widget [1, 2]) [1]
                  (snd (projr (new_Accordion None markup_open_but_hidden))))) 1
   \<and> hasAttribute
        (projr (toggles (two_pairs_widget [1, 2]) [1]
                  (snd (projr (new_Accordion None markup_open_but_hidden))))) 3 ''hidden''"
  by (simp add: markup_open_but_hidden_def construct_simps run_simps page_simps)

section \<open>The state after construction\<close>

text \<open>
  C8, as the code has it. When a root is given or found, construction succeeds, with the
  buttons and sections under the root as controllers and containers. Afterwards every
  controller that is validly paired (container ids being unique) and whose
  \<^verbatim>\<open>aria-expanded\<close> was missing or "false" has \<^verbatim>\<open>aria-expanded="false"\<close>, and its
  container has \<^verbatim>\<open>hidden=""\<close>. Controllers with another \<^verbatim>\<open>aria-expanded\<close> value, and
  controllers whose pairing fails validation, are left as the markup has them: their
  \<^verbatim>\<open>aria-expanded\<close> and \<^verbatim>\<open>aria-disabled\<close> are unchanged, \<^verbatim>\<open>hidden\<close> is unchanged on
  every element that is not the container found for a controller that is collapsed, and
  no other attribute of any element changes.
\<close>

theorem construction_collapses:
  assumes "(case r of Some x \<Rightarrow> Some x | None \<Rightarrow> querySelector d ''.accordion'') = Some rt"
  shows "\<exists>this d'. new_Accordion r d = Inr (this, d')
           \<and> root this = rt
           \<and> controllers this = querySelectorAll d rt ''.accordion__button''
           \<and> containers this = querySelectorAll d rt ''.accordion__section''
           \<and> (\<forall>c k. paired this d c k \<and> unique_container_ids this d
                  \<and> (\<not> hasAttribute d c ''aria-expanded''
                       \<or> getAttribute d c ''aria-expanded'' = Some ''false'')
                \<longrightarrow> getAttribute d' c ''aria-expanded'' = Some ''false''
                    \<and> getAttribute d' k ''hidden'' = Some [])
           \<and> (\<forall>e. \<not> (e \<in> set (controllers this)
                       \<and> (\<not> hasAttribute d e ''aria-expanded''
                            \<or> getAttribute d e ''aria-expanded'' = Some ''false'')
                       \<and> validated_container this e d \<noteq> None)
                \<longrightarrow> getAttribute d' e ''aria-expanded'' = getAttribute d e ''aria-expanded''
                    \<and> getAttribute d' e ''aria-disabled'' = getAttribute d e ''aria-disabled'')
           \<and> (\<forall>e. \<not> (\<exists>c\<in>set (controllers this).
                         (\<not> hasAttribute d c ''aria-expanded''
                            \<or> getAttribute d c ''aria-expanded'' = Some ''false'')
                         \<and> validated_container this c d = Some e)
                \<longrightarrow> getAttribute d' e ''hidden'' = getAttribute d e ''hidden'')
           \<and> same_markup d d'"
proof -
  let ?w = "\<lparr> root = rt,
                 controllers = enumerateElements (querySelectorAll d rt ''.accordion__button''),
                 containers = enumerateElements (querySelectorAll d rt ''.accordion__section'') \<rparr>"
  let ?P = "\<lambda>controller. \<not> hasAttribute d controller ''aria-expanded''
                            \<or> getAttribute d controller ''aria-expanded'' = Some ''false''"
  obtain d' where init: "initialize ?w d = Inr d'"
    by (simp add: initialize_eq)
  have run: "new_Accordion r d = Inr (?w, d')"
    using assms init by (simp add: new_Accordion_def)
  note at = initialize_attributes[OF init]
  have sm: "same_markup d d'" by (rule initialize_same_markup[OF init])
  have a: "\<forall>c k. paired ?w d c k \<and> unique_container_ids ?w d \<and> ?P c
                \<longrightarrow> getAttribute d' c ''aria-expanded'' = Some ''false''
                    \<and> getAttribute d' k ''hidden'' = Some []"
  proof (intro allI impI)
    fix c k
    assume h: "paired ?w d c k \<and> unique_container_ids ?w d \<and> ?P c"
    then have v: "validated_container ?w c d = Some k" by (simp add: paired_validated)
    from h have "c \<in> set (controllers ?w)" by (simp add: paired_def)
    with h have c_in: "c \<in> set (filter ?P (controllers ?w))" by simp
    have 1: "attributes d' c ''aria-expanded'' = Some ''false''"
      unfolding at collapsed_def using c_in v by simp
    have 2: "attributes d' k ''hidden'' = Some []"
      unfolding at collapsed_def using c_in v by (auto simp: list_ex_iff)
    show "getAttribute d' c ''aria-expanded'' = Some ''false''
                    \<and> getAttribute d' k ''hidden'' = Some []"
      by (simp add: getAttribute_def 1 2)
  qed
  have b: "\<forall>e. \<not> (e \<in> set (controllers ?w) \<and> ?P e \<and> validated_container ?w e d \<noteq> None)
                \<longrightarrow> getAttribute d' e ''aria-expanded'' = getAttribute d e ''aria-expanded''
                    \<and> getAttribute d' e ''aria-disabled'' = getAttribute d e ''aria-disabled''"
    unfolding getAttribute_def at collapsed_def by (auto simp del: not_None_eq)
  have c: "\<forall>e. \<not> (\<exists>c\<in>set (controllers ?w). ?P c \<and> validated_container ?w c d = Some e)
                \<longrightarrow> getAttribute d' e ''hidden'' = getAttribute d e ''hidden''"
    unfolding getAttribute_def at collapsed_def by (auto simp: list_ex_iff simp del: not_None_eq)
  have w: "root ?w = rt" "controllers ?w = querySelectorAll d rt ''.accordion__button''"
    "containers ?w = querySelectorAll d rt ''.accordion__section''"
    by (simp_all add: enumerateElements_def)
  show ?thesis
    by (intro exI[of _ ?w] exI[of _ d'] conjI) (fact run w a b c sm)+
qed

theorem construction_collapses_witness:
  "querySelector markup_plain ''.accordion'' = Some 0
   \<and> (\<exists>w d'. new_Accordion None markup_plain = Inr (w, d')
         \<and> w = two_pairs_widget [1, 2]
         \<and> paired w markup_plain 1 3 \<and> unique_container_ids w markup_plain
         \<and> \<not> hasAttribute markup_plain 1 ''aria-expanded''
         \<and> getAttribute d' 1 ''aria-expanded'' = Some ''false''
         \<and> getAttribute d' 3 ''hidden'' = Some []
         \<and> paired w markup_plain 2 4
         \<and> getAttribute markup_plain 2 ''aria-expanded'' = Some ''false''
         \<and> getAttribute d' 2 ''aria-expanded'' = Some ''false''
         \<and> getAttribute d' 4 ''hidden'' = Some [])
   \<and> querySelector markup_undefined_and_broken ''.accordion'' = Some 0
   \<and> (\<exists>w d'. new_Accordion None markup_undefined_and_broken = Inr (w, d')
         \<and> w = two_pairs_widget [1, 6]
         \<and> getAttribute d' 1 ''aria-expanded'' = Some ''undefined''
         \<and> getAttribute d' 3 ''hidden'' = None
         \<and> getAttribute d' 6 ''aria-expanded'' = None
         \<and> getAttribute d' 6 ''aria-disabled'' = None
         \<and> same_markup markup_undefined_and_broken d')"
proof -
  have h: "(case None of Some x \<Rightarrow> Some x | None \<Rightarrow> querySelector markup_plain ''.accordion'') = Some 0"
    by (simp add: markup_plain_def page_simps)
  have q: "querySelectorAll markup_plain 0 ''.accordion__button'' = [1, 2]"
    "querySelectorAll markup_plain 0 ''.accordion__section'' = [3, 4]"
    by (simp_all add: markup_plain_def page_simps)
  from construction_collapses [OF h] obtain w d' where
    run: "new_Accordion None markup_plain = Inr (w, d')"
    and w: "root w = 0" "controllers w = querySelectorAll markup_plain 0 ''.accordion__button''"
      "containers w = querySelectorAll markup_plain 0 ''.accordion__section''"
    and col: "\<forall>c k. paired w markup_plain c k \<and> unique_container_ids w markup_plain
                  \<and> (\<not> hasAttribute markup_plain c ''aria-expanded''
                       \<or> getAttribute markup_plain c ''aria-expanded'' = Some ''false'')
                \<longrightarrow> getAttribute d' c ''aria-expanded'' = Some ''false''
                    \<and> getAttribute d' k ''hidden'' = Some []"
    by blast
  from w q have weq: "w = two_pairs_widget [1, 2]"
    by (simp add: two_pairs_widget_def)
  have p1: "paired (two_pairs_widget [1, 2]) markup_plain 1 3"
    and p2: "paired (two_pairs_widget [1, 2]) markup_plain 2 4"
    and u: "unique_container_ids (two_pairs_widget [1, 2]) markup_plain"
    and e1: "\<not> hasAttribute markup_plain 1 ''aria-expanded''"
    and e2: "getAttribute markup_plain 2 ''aria-expanded'' = Some ''false''"
    by (simp_all add: markup_plain_def page_simps)
  have "getAttribute d' 1 ''aria-expanded'' = Some ''false'' \<and> getAttribute d' 3 ''hidden'' = Some []"
    using col[rule_format, of 1 3] p1 u e1 by (simp add: weq)
  moreover have "getAttribute d' 2 ''aria-expanded'' = Some ''false'' \<and> getAttribute d' 4 ''hidden'' = Some []"
    using col[rule_format, of 2 4] p2 u e2 by (simp add: weq)
  ultimately have first: "\<exists>w d'. new_Accordion None markup_plain = Inr (w, d')
         \<and> w = two_pairs_widget [1, 2]
         \<and> paired w markup_plain 1 3 \<and> unique_container_ids w markup_plain
         \<and> \<not> hasAttribute markup_plain 1 ''aria-expanded''
         \<and> getAttribute d' 1 ''aria-expanded'' = Some ''false''
         \<and> getAttribute d' 3 ''hidden'' = Some []
         \<and> paired w markup_plain 2 4
         \<and> getAttribute markup_plain 2 ''aria-expanded'' = Some ''false''
         \<and> getAttribute d' 2 ''aria-expanded'' = Some ''false''
         \<and> getAttribute d' 4 ''hidden'' = Some []"
    using run weq p1 p2 u e1 e2 by simp
  have g: "(case None of Some x \<Rightarrow> Some x | None \<Rightarrow> querySelector markup_undefined_and_broken ''.accordion'') = Some 0"
    by (simp add: markup_undefined_and_broken_def page_simps)
  have q2: "querySelectorAll markup_undefined_and_broken 0 ''.accordion__button'' = [1, 6]"
    "querySelectorAll markup_undefined_and_broken 0 ''.accordion__section'' = [3, 4]"
    by (simp_all add: markup_undefined_and_broken_def page_simps)
  from construction_collapses [OF g] obtain w2 d2 where
    run2: "new_Accordion None markup_undefined_and_broken = Inr (w2, d2)"
    and w2: "root w2 = 0"
      "controllers w2 = querySelectorAll markup_undefined_and_broken 0 ''.accordion__button''"
      "containers w2 = querySelectorAll markup_undefined_and_broken 0 ''.accordion__section''"
    and left: "\<forall>e. \<not> (e \<in> set (controllers w2)
                       \<and> (\<not> hasAttribute markup_undefined_and_broken e ''aria-expanded''
                            \<or> getAttribute markup_undefined_and_broken e ''aria-expanded'' = Some ''false'')
                       \<and> validated_container w2 e markup_undefined_and_broken \<noteq> None)
                \<longrightarrow> getAttribute d2 e ''aria-expanded'' = getAttribute markup_undefined_and_broken e ''aria-expanded''
                    \<and> getAttribute d2 e ''aria-disabled'' = getAttribute markup_undefined_and_broken e ''aria-disabled''"
    and shown: "\<forall>e. \<not> (\<exists>c\<in>set (controllers w2).
                         (\<not> hasAttribute markup_undefined_and_broken c ''aria-expanded''
                            \<or> getAttribute markup_undefined_and_broken c ''aria-expanded'' = Some ''false'')
                         \<and> validated_container w2 c markup_undefined_and_broken = Some e)
                \<longrightarrow> getAttribute d2 e ''hidden'' = getAttribute markup_undefined_and_broken e ''hidden''"
    and sm: "same_markup markup_undefined_and_broken d2"
    by blast
  from w2 q2 have weq2: "w2 = two_pairs_widget [1, 6]"
    by (simp add: two_pairs_widget_def)
  have b: "getAttribute markup_undefined_and_broken 1 ''aria-expanded'' = Some ''undefined''"
    "getAttribute markup_undefined_and_broken 6 ''aria-expanded'' = None"
    "getAttribute markup_undefined_and_broken 6 ''aria-disabled'' = None"
    "getAttribute markup_undefined_and_broken 3 ''hidden'' = None"
    "hasAttribute markup_undefined_and_broken 1 ''aria-expanded''"
    "validated_container (two_pairs_widget [1, 6]) 6 markup_undefined_and_broken = None"
    "controllers (two_pairs_widget [1, 6]) = [1, 6]"
    by (simp_all add: validated_container_def getContainerByController_def
        markup_undefined_and_broken_def page_simps)
  have l1: "getAttribute d2 1 ''aria-expanded'' = Some ''undefined''"
    using left[rule_format, of 1] b by (simp add: weq2)
  have l6: "getAttribute d2 6 ''aria-expanded'' = None \<and> getAttribute d2 6 ''aria-disabled'' = None"
    using left[rule_format, of 6] b by (simp add: weq2)
  have l3: "getAttribute d2 3 ''hidden'' = None"
    using shown[rule_format, of 3] b by (simp add: weq2)
  have second: "\<exists>w d'. new_Accordion None markup_undefined_and_broken = Inr (w, d')
         \<and> w = two_pairs_widget [1, 6]
         \<and> getAttribute d' 1 ''aria-expanded'' = Some ''undefined''
         \<and> getAttribute d' 3 ''hidden'' = None
         \<and> getAttribute d' 6 ''aria-expanded'' = None
         \<and> getAttribute d' 6 ''aria-disabled'' = None
         \<and> same_markup markup_undefined_and_broken d'"
    using run2 weq2 l1 l6 l3 sm by simp
  from h g have hq: "querySelector markup_plain ''.accordion'' = Some 0"
    "querySelector markup_undefined_and_broken ''.accordion'' = Some 0"
    by simp_all
  show ?thesis
    by (intro conjI) (fact hq first second)+
qed

text \<open>
  The claim as stated fails. The widget has a valid pair (1, 3); the markup gives button 1
  \<^verbatim>\<open>aria-expanded="undefined"\<close>, which is not "true"; button 6 has no
  \<^verbatim>\<open>aria-expanded\<close> and names no section. After construction button 1 still says
  "undefined" and its section is not hidden, and button 6 still has no
  \<^verbatim>\<open>aria-expanded\<close>: neither is in the collapsed state.
\<close>

theorem construction_collapses_counterexample:
  "\<not> isl (new_Accordion None markup_undefined_and_broken)
   \<and> fst (projr (new_Accordion None markup_undefined_and_broken)) = two_pairs_widget [1, 6]
   \<and> paired (two_pairs_widget [1, 6]) markup_undefined_and_broken 1 3
   \<and> getAttribute markup_undefined_and_broken 1 ''aria-expanded'' \<noteq> Some ''true''
   \<and> getAttribute (snd (projr (new_Accordion None markup_undefined_and_broken))) 1 ''aria-expanded''
        = Some ''undefined''
   \<and> \<not> hasAttribute (snd (projr (new_Accordion None markup_undefined_and_broken))) 3 ''hidden''
   \<and> getAttribute markup_undefined_and_broken 6 ''aria-expanded'' \<noteq> Some ''true''
   \<and> getAttribute (snd (projr (new_Accordion None markup_undefined_and_broken))) 6 ''aria-expanded''
        = None"
  by (simp add: markup_undefined_and_broken_def construct_simps run_simps page_simps)

end
